theory Spec2Isabelle
  imports Complex_Main
begin

section \<open>JavaScript strings and numbers\<close>

text \<open>
  Strings are modelled as \<open>string\<close> (lists of characters). The case conversions of the
  source (\<open>String.prototype.toUpperCase\<close>, \<open>toLowerCase\<close>) are modelled on the ASCII
  letters, which is what Codeforces problem indices, CodeChef problem codes and verdict
  phrasings consist of; every other character is left as it is.
  Numbers that hold identifiers and timestamps are modelled as unbounded integers
  (exact for the safe integers of JavaScript).
\<close>

definition lowerLetters :: string where
  "lowerLetters = ''abcdefghijklmnopqrstuvwxyz''"

definition upperLetters :: string where
  "upperLetters = ''ABCDEFGHIJKLMNOPQRSTUVWXYZ''"

definition digits :: string where
  "digits = ''0123456789''"

definition toUpperChar :: "char \<Rightarrow> char" where
  "toUpperChar c = (case map_of (zip lowerLetters upperLetters) c of Some u \<Rightarrow> u | None \<Rightarrow> c)"

definition toLowerChar :: "char \<Rightarrow> char" where
  "toLowerChar c = (case map_of (zip upperLetters lowerLetters) c of Some l \<Rightarrow> l | None \<Rightarrow> c)"

definition toUpperCase :: "string \<Rightarrow> string" where
  "toUpperCase s = map toUpperChar s"

definition toLowerCase :: "string \<Rightarrow> string" where
  "toLowerCase s = map toLowerChar s"

definition isDigit :: "char \<Rightarrow> bool" where
  "isDigit c = (c \<in> set digits)"

definition isLetter :: "char \<Rightarrow> bool" where
  "isLetter c = (c \<in> set (lowerLetters @ upperLetters))"

text \<open>\<open>s.startsWith(t)\<close> and \<open>s.includes(t)\<close>.\<close>

fun startsWith :: "string \<Rightarrow> string \<Rightarrow> bool" where
  "startsWith s [] = True"
| "startsWith [] (c # t) = False"
| "startsWith (d # s) (c # t) = (d = c \<and> startsWith s t)"

fun includes_str :: "string \<Rightarrow> string \<Rightarrow> bool" where
  "includes_str [] t = (t = [])"
| "includes_str (c # s) t = (startsWith (c # s) t \<or> includes_str s t)"

text \<open>Decimal rendering of a number in a template literal, and \<open>parseInt\<close> on a digit string.\<close>

definition digitChar :: "nat \<Rightarrow> char" where
  "digitChar d = digits ! d"

definition digitVal :: "char \<Rightarrow> nat" where
  "digitVal c = (case map_of (zip digits [0, 1, 2, 3, 4, 5, 6, 7, 8, 9]) c of Some d \<Rightarrow> d | None \<Rightarrow> 0)"

function showNat :: "nat \<Rightarrow> string" where
  "showNat n = (if n < 10 then [digitChar n] else showNat (n div 10) @ [digitChar (n mod 10)])"
  by pat_completeness auto
termination
  by (relation "measure id") auto

declare showNat.simps [simp del]

definition showInt :: "int \<Rightarrow> string" where
  "showInt i = (if i < 0 then CHR ''-'' # showNat (nat (- i)) else showNat (nat i))"

definition parseDigits :: "string \<Rightarrow> nat" where
  "parseDigits ds = foldl (\<lambda>acc c. acc * 10 + digitVal c) 0 ds"

section \<open>Time utilities (src/utils/time.js)\<close>

text \<open>
  A \<open>Date\<close> is modelled by its epoch value in milliseconds (\<open>getTime()\<close>); every reading
  of the clock (\<open>new Date()\<close>, \<open>Date.now()\<close>) is an explicit argument.
\<close>

definition isExpired :: "int \<Rightarrow> int \<Rightarrow> bool" where
  "isExpired now expiresAt = (now > expiresAt)"

record remaining_time =
  minutes :: int
  seconds :: int
  formatted :: string

definition getRemainingTime :: "int \<Rightarrow> int \<Rightarrow> remaining_time" where
  "getRemainingTime now expiresAt =
     (let diff = expiresAt - now in
      if diff \<le> 0 then \<lparr>minutes = 0, seconds = 0, formatted = ''Expired''\<rparr>
      else
        let m = diff div 60000; s = (diff mod 60000) div 1000
        in \<lparr>minutes = m, seconds = s, formatted = showInt m @ ''m '' @ showInt s @ ''s''\<rparr>)"

text \<open>\<open>getExpirationTime\<close> moves the clock reading forward by the given minutes;
  \<open>VERIFICATION_TIMEOUT\<close> is \<open>parseInt(process.env.VERIFICATION_TIMEOUT) || 10\<close>, here its
  default.\<close>

definition getExpirationTime :: "int \<Rightarrow> int \<Rightarrow> int" where
  "getExpirationTime now mins = now + mins * 60000"

definition VERIFICATION_TIMEOUT :: int where
  "VERIFICATION_TIMEOUT = 10"

text \<open>
  \<open>isSubmissionAfterStart\<close>: the start instant is floored to whole seconds, the unit of
  the submission timestamps, and the comparison is \<open>>=\<close>.
\<close>

definition isSubmissionAfterStart :: "int \<Rightarrow> int \<Rightarrow> bool" where
  "isSubmissionAfterStart submissionTime startedAt =
     (let startTimestamp = startedAt div 1000 in submissionTime \<ge> startTimestamp)"

section \<open>Codeforces service (src/services/codeforces.service.js)\<close>

text \<open>A thrown JavaScript \<open>Error\<close>, carrying its message.\<close>

datatype error = Error string

fun error_message :: "error \<Rightarrow> string" where
  "error_message (Error m) = m"

text \<open>
  A submission as \<open>getRecentSubmissions\<close> maps it from the \<open>user.status\<close> response.
  The API may leave \<open>contestId\<close> and \<open>verdict\<close> out; they are then \<open>undefined\<close>.
\<close>

record cf_submission =
  sub_id :: int
  contestId :: "int option"
  problemIndex :: string
  problemName :: string
  verdict :: "string option"
  creationTimeSeconds :: int
  programmingLanguage :: string

text \<open>The object returned by \<open>checkCompilationErrorSubmission\<close> (both services).\<close>

record 'sub check_result =
  verified :: bool
  submission :: "'sub option"
  message :: string

text \<open>How a template literal renders a possibly undefined string; the double quote.\<close>

definition dquote :: string where
  "dquote = [CHR 0x22]"

definition template_string :: "string option \<Rightarrow> string" where
  "template_string v = (case v of None \<Rightarrow> ''undefined'' | Some s \<Rightarrow> s)"

definition cf_isProblemMatch :: "int \<Rightarrow> string \<Rightarrow> cf_submission \<Rightarrow> bool" where
  "cf_isProblemMatch cid idx sub =
     (contestId sub = Some cid \<and> toUpperCase (problemIndex sub) = toUpperCase idx)"

definition cf_isCompilationError :: "cf_submission \<Rightarrow> bool" where
  "cf_isCompilationError sub = (verdict sub = Some ''COMPILATION_ERROR'')"

text \<open>
  \<open>checkCompilationErrorSubmission(username, contestId, problemIndex, startedAt)\<close>.
  The first argument is the outcome of \<open>getRecentSubmissions(username, 20)\<close>: the mapped
  submissions, or the error it threw, which the \<open>catch\<close> block logs and rethrows.
\<close>

definition cf_checkCompilationErrorSubmission ::
  "error + cf_submission list \<Rightarrow> int \<Rightarrow> string \<Rightarrow> int \<Rightarrow> error + cf_submission check_result" where
  "cf_checkCompilationErrorSubmission fetched cid idx startedAt =
     (case fetched of
        Inl e \<Rightarrow> Inl e
      | Inr submissions \<Rightarrow>
          (case find (\<lambda>sub. cf_isProblemMatch cid idx sub \<and> cf_isCompilationError sub \<and>
                             isSubmissionAfterStart (creationTimeSeconds sub) startedAt) submissions of
             Some matchingSubmission \<Rightarrow>
               Inr \<lparr>verified = True, submission = Some matchingSubmission,
                    message = ''Compilation Error submission found!''\<rparr>
           | None \<Rightarrow>
               (case find (\<lambda>sub. cf_isProblemMatch cid idx sub \<and>
                                  isSubmissionAfterStart (creationTimeSeconds sub) startedAt) submissions of
                  Some anyProblemSubmission \<Rightarrow>
                    Inr \<lparr>verified = False, submission = Some anyProblemSubmission,
                         message = ''Found submission but verdict was '' @ dquote @
                                   template_string (verdict anyProblemSubmission) @ dquote @
                                   '' instead of '' @ dquote @ ''COMPILATION_ERROR'' @ dquote\<rparr>
                | None \<Rightarrow>
                    Inr \<lparr>verified = False, submission = None,
                         message = ''No submission found to the specified problem''\<rparr>)))"

definition cf_getProblemUrl :: "int \<Rightarrow> string \<Rightarrow> string" where
  "cf_getProblemUrl cid idx = ''https://codeforces.com/problemset/problem/'' @ showInt cid @ ''/'' @ idx"

section \<open>CodeChef service (src/services/codechef.service.js)\<close>

text \<open>
  The response of \<open>axios.get\<close> on the status page. With
  \<open>validateStatus: (status) => status < 500\<close> a response is delivered only when its status
  is below 500; every other outcome is a thrown error.
\<close>

record http_response =
  status :: nat
  data :: string

text \<open>
  A submission as the CodeChef \<open>getRecentSubmissions\<close> returns it; any field may be
  \<open>undefined\<close>. \<open>date\<close> is the instant the field denotes, in epoch milliseconds.
\<close>

record cc_submission =
  cc_id :: "int option"
  problemCode :: "string option"
  result :: "string option"
  date :: "int option"
  language :: "string option"

definition hasCompilationError :: "string \<Rightarrow> http_response \<Rightarrow> bool" where
  "hasCompilationError username response =
     (includes_str (data response) username \<and>
      (includes_str (data response) ''compilation error'' \<or>
       includes_str (data response) ''Compilation Error'' \<or>
       includes_str (data response) ''>CE<''))"

text \<open>\<open>sub.problemCode && sub.problemCode.toUpperCase() === problemCode.toUpperCase()\<close>:
  an undefined or empty string is falsy.\<close>

definition cc_isProblemMatch :: "string \<Rightarrow> cc_submission \<Rightarrow> bool" where
  "cc_isProblemMatch code sub =
     (case problemCode sub of
        None \<Rightarrow> False
      | Some c \<Rightarrow> c \<noteq> [] \<and> toUpperCase c = toUpperCase code)"

definition cc_isCompilationError :: "cc_submission \<Rightarrow> bool" where
  "cc_isCompilationError sub =
     (case result sub of
        None \<Rightarrow> False
      | Some r \<Rightarrow> r \<noteq> [] \<and>
          (includes_str (toLowerCase r) ''compilation error'' \<or>
           toLowerCase r = ''ce'' \<or>
           r = ''compilation error''))"

text \<open>
  \<open>checkCompilationErrorSubmission(username, problemCode, startedAt)\<close>. \<open>page\<close> is the
  outcome of the request for the status page, \<open>submissions\<close> the list that
  \<open>getRecentSubmissions(username, 30)\<close> returns in the fallback (that function catches
  every error and returns the empty list instead). The parameter \<open>startedAt\<close> is never
  read in the source, and neither is the \<open>date\<close> of a submission.
\<close>

definition cc_checkCompilationErrorSubmission ::
  "error + http_response \<Rightarrow> cc_submission list \<Rightarrow> string \<Rightarrow> string \<Rightarrow> int \<Rightarrow>
   error + cc_submission check_result" where
  "cc_checkCompilationErrorSubmission page submissions username code startedAt =
     (case page of
        Inl e \<Rightarrow> Inl (Error (''Failed to check CodeChef submissions: '' @ error_message e))
      | Inr response \<Rightarrow>
          if status response = 200 \<and> data response \<noteq> [] \<and> hasCompilationError username response
          then Inr \<lparr>verified = True,
                    submission = Some \<lparr>cc_id = None, problemCode = Some code,
                                       result = Some ''compilation error'', date = None,
                                       language = None\<rparr>,
                    message = ''Compilation Error submission found!''\<rparr>
          else
            (case find (\<lambda>sub. cc_isProblemMatch code sub \<and> cc_isCompilationError sub) submissions of
               Some matchingSubmission \<Rightarrow>
                 Inr \<lparr>verified = True, submission = Some matchingSubmission,
                      message = ''Compilation Error submission found!''\<rparr>
             | None \<Rightarrow>
                 (case find (cc_isProblemMatch code) submissions of
                    Some anySubmission \<Rightarrow>
                      Inr \<lparr>verified = False, submission = Some anySubmission,
                           message = ''Found submission but verdict was '' @ dquote @
                                     template_string (result anySubmission) @ dquote @
                                     '' instead of '' @ dquote @ ''Compilation Error'' @ dquote\<rparr>
                  | None \<Rightarrow>
                      Inr \<lparr>verified = False, submission = None,
                           message = ''No submission found to the specified problem. Please make sure you submitted to the correct problem.''\<rparr>)))"

section \<open>The rate-limit gate (\<open>respectRateLimit\<close> of both services)\<close>

definition CF_REQUEST_DELAY :: int where
  "CF_REQUEST_DELAY = 250"

definition CC_REQUEST_DELAY :: int where
  "CC_REQUEST_DELAY = 500"

text \<open>
  \<open>respectRateLimit\<close> is an \<open>async\<close> function with one suspension point. Its first part
  reads the clock and the module variable \<open>lastRequestTime\<close> and decides whether to sleep:
  \<open>requestedTimeout\<close> is the argument it passes to \<open>setTimeout\<close>, if any. Its second part,
  \<open>lastRequestTime = Date.now()\<close>, runs at once when no sleep is needed and after the timer
  has fired otherwise; other callers run in between.
\<close>

definition requestedTimeout :: "int \<Rightarrow> int \<Rightarrow> int \<Rightarrow> int option" where
  "requestedTimeout REQUEST_DELAY lastRequestTime now =
     (let timeSinceLastRequest = now - lastRequestTime in
      if timeSinceLastRequest < REQUEST_DELAY then Some (REQUEST_DELAY - timeSinceLastRequest)
      else None)"

text \<open>
  A call that runs without another caller in between: \<open>now\<close> is the clock at entry and
  \<open>latency\<close> the time that passes, beyond the requested sleep, until the clock is read
  again (a timer fires no earlier than asked, and the clock does not go back).
  The result is the new \<open>lastRequestTime\<close>, the instant at which the request is issued.
\<close>

definition respectRateLimit :: "int \<Rightarrow> int \<Rightarrow> int \<Rightarrow> nat \<Rightarrow> int" where
  "respectRateLimit REQUEST_DELAY lastRequestTime now latency =
     (case requestedTimeout REQUEST_DELAY lastRequestTime now of
        Some timeout \<Rightarrow> now + timeout + int latency
      | None \<Rightarrow> now + int latency)"

text \<open>
  Callers that overlap. \<open>Call c now later\<close>: caller \<open>c\<close> enters at clock \<open>now\<close>; when it
  need not sleep it records \<open>later\<close>, the next reading of the clock. \<open>Wake c now\<close>: the
  timer of the sleeping caller \<open>c\<close> fires and it records the clock \<open>now\<close>. The state holds
  the module variable, the sleeping callers with the instant their timers are due, and
  the requests issued so far (caller and recorded instant, latest first).
\<close>

datatype gate_event = Call nat int int | Wake nat int

record gate_state =
  lastRequestTime :: int
  sleeping :: "(nat \<times> int) list"
  issued :: "(nat \<times> int) list"

fun gate_step :: "int \<Rightarrow> gate_state \<Rightarrow> gate_event \<Rightarrow> gate_state option" where
  "gate_step REQUEST_DELAY g (Call c now later) =
     (if later < now then None
      else case requestedTimeout REQUEST_DELAY (lastRequestTime g) now of
        Some timeout \<Rightarrow> Some (g\<lparr>sleeping := (c, now + timeout) # sleeping g\<rparr>)
      | None \<Rightarrow> Some (g\<lparr>lastRequestTime := later, issued := (c, later) # issued g\<rparr>))"
| "gate_step REQUEST_DELAY g (Wake c now) =
     (case map_of (sleeping g) c of
        None \<Rightarrow> None
      | Some due \<Rightarrow>
          if now < due then None
          else Some (g\<lparr>lastRequestTime := now,
                       sleeping := filter (\<lambda>p. fst p \<noteq> c) (sleeping g),
                       issued := (c, now) # issued g\<rparr>))"

fun gate_run :: "int \<Rightarrow> gate_state \<Rightarrow> gate_event list \<Rightarrow> gate_state option" where
  "gate_run REQUEST_DELAY g [] = Some g"
| "gate_run REQUEST_DELAY g (e # es) =
     (case gate_step REQUEST_DELAY g e of
        None \<Rightarrow> None
      | Some g' \<Rightarrow> gate_run REQUEST_DELAY g' es)"

section \<open>Problem catalog (src/utils/randomProblem.js)\<close>




text \<open>A problem of the \<open>problemset.problems\<close> response; \<open>rating\<close> may be absent.\<close>

record cf_problem =
  p_contestId :: int
  p_index :: string
  p_name :: string
  p_rating :: "int option"








text \<open>The object returned by \<open>getRandomCodeforcesProblem\<close> and \<open>getRandomCodeChefProblem\<close>.\<close>

record selected_problem =
  sel_id :: string
  sel_name :: string
  sel_url :: string
  sel_contestId :: "int option"
  sel_index :: "string option"
  sel_rating :: "int option"

text \<open>\<open>Math.floor(Math.random() * n)\<close>, where \<open>random\<close> is the value of \<open>Math.random()\<close>.\<close>

definition randomIndex :: "real \<Rightarrow> nat \<Rightarrow> nat" where
  "randomIndex random n = nat \<lfloor>random * real n\<rfloor>"

definition selectCodeforcesProblem :: "cf_problem \<Rightarrow> selected_problem" where
  "selectCodeforcesProblem problem =
     \<lparr>sel_id = showInt (p_contestId problem) @ p_index problem,
      sel_name = p_name problem,
      sel_url = ''https://codeforces.com/problemset/problem/'' @ showInt (p_contestId problem) @
                ''/'' @ p_index problem,
      sel_contestId = Some (p_contestId problem),
      sel_index = Some (p_index problem),
      sel_rating = p_rating problem\<rparr>"


definition codechefProblems :: "(string \<times> string) list" where
  "codechefProblems =
     [(''TEST'', ''Life, the Universe, and Everything''),
      (''INTEST'', ''Enormous Input Test''),
      (''HS08TEST'', ''ATM''),
      (''FLOW001'', ''Add Two Numbers''),
      (''FLOW002'', ''Sum of Digits''),
      (''FLOW003'', ''FLOW003''),
      (''FLOW004'', ''First and Last Digit''),
      (''FLOW005'', ''Smallest Number in the List''),
      (''FLOW006'', ''Reversed Number''),
      (''FLOW007'', ''Reverse The Number''),
      (''FLOW008'', ''FLOW008''),
      (''START01'', ''Start Practice''),
      (''LADDU'', ''Chef and Laddus''),
      (''CARVANS'', ''Carvans''),
      (''LTIME'', ''Lucky Time''),
      (''CHEFSTUD'', ''Chef and his Students''),
      (''CNOTE'', ''Chef and Notebook''),
      (''CHOPRT'', ''Chopsticks''),
      (''DIFFSUM'', ''Difference Sum''),
      (''REMISS'', ''Remove Mission'')]"

definition getRandomCodeChefProblem :: "real \<Rightarrow> error + selected_problem" where
  "getRandomCodeChefProblem random =
     (if randomIndex random (length codechefProblems) < length codechefProblems
      then case codechefProblems ! randomIndex random (length codechefProblems) of
             (code, name) \<Rightarrow>
               Inr \<lparr>sel_id = code, sel_name = name,
                    sel_url = ''https://www.codechef.com/problems/'' @ code,
                    sel_contestId = None, sel_index = None, sel_rating = None\<rparr>
      else Inl (Error ''Cannot read properties of undefined''))"

section \<open>The persistent store (src/services/supabase.client.js)\<close>

text \<open>
  The source of supabase.client.js is missing; the commands import its functions. The
  store is modelled as the two tables the commands use. A row of
  \<open>pending_verifications\<close> and a row of \<open>linked_accounts\<close> have the fields the commands
  read and write. Instants are epoch milliseconds.
\<close>

record pending_verification =
  pv_id :: nat
  discord_user_id :: string
  guild_id :: string
  platform :: string
  username :: string
  problem_id :: string
  problem_url :: string
  problem_name :: string
  started_at :: int
  expires_at :: int

record linked_account =
  la_discord_user_id :: string
  la_guild_id :: string
  la_platform :: string
  la_username :: string
  la_rank :: "string option"

record store =
  pending_verifications :: "pending_verification list"
  linked_accounts :: "linked_account list"

definition empty_store :: store where
  "empty_store = \<lparr>pending_verifications = [], linked_accounts = []\<rparr>"

text \<open>The key of a session: (userId, guildId, platform).\<close>

definition session_key :: "pending_verification \<Rightarrow> string \<times> string \<times> string" where
  "session_key p = (discord_user_id p, guild_id p, platform p)"

definition account_key :: "linked_account \<Rightarrow> string \<times> string \<times> string" where
  "account_key a = (la_discord_user_id a, la_guild_id a, la_platform a)"

text \<open>Modelled from the spec: \<open>getPendingVerifications\<close> of supabase.client.js is missing;
  the store must "find all sessions for (userId, guildId)".\<close>

definition getPendingVerifications :: "string \<Rightarrow> string \<Rightarrow> store \<Rightarrow> pending_verification list" where
  "getPendingVerifications userId guildId st =
     filter (\<lambda>p. discord_user_id p = userId \<and> guild_id p = guildId) (pending_verifications st)"

text \<open>Modelled from the spec: \<open>deletePendingVerification\<close> of supabase.client.js is missing;
  it deletes the session with the given id. The spec names no failure of a deletion, and
  the model has none.\<close>

definition deletePendingVerification :: "nat \<Rightarrow> store \<Rightarrow> store" where
  "deletePendingVerification i st =
     st\<lparr>pending_verifications := filter (\<lambda>p. pv_id p \<noteq> i) (pending_verifications st)\<rparr>"

text \<open>Modelled from the spec: \<open>createLinkedAccount\<close> of supabase.client.js is missing; it
  persists a linked account, keyed by (userId, guildId, platform), and may fail (the
  "finalize-step persistence failure"). The first argument is the failure the store
  reports, if any; a failed call changes nothing.\<close>

definition createLinkedAccount :: "error option \<Rightarrow> linked_account \<Rightarrow> store \<Rightarrow> error + store" where
  "createLinkedAccount failure a st =
     (case failure of
        Some e \<Rightarrow> Inl e
      | None \<Rightarrow>
          Inr (st\<lparr>linked_accounts :=
                     a # filter (\<lambda>b. account_key b \<noteq> account_key a) (linked_accounts st)\<rparr>))"

text \<open>The object that link.js passes to \<open>createPendingVerification\<close>.\<close>

record new_verification =
  nv_discord_user_id :: string
  nv_guild_id :: string
  nv_platform :: string
  nv_username :: string
  nv_problem_id :: string
  nv_problem_url :: string
  nv_problem_name :: string
  nv_expires_at :: int

definition fresh_id :: "store \<Rightarrow> nat" where
  "fresh_id st = Suc (foldr max (map pv_id (pending_verifications st)) 0)"

text \<open>Modelled from the spec: \<open>createPendingVerification\<close> of supabase.client.js is missing;
  it "persists the session (superseding any prior session for the same key)", sessions
  being keyed by (userId, guildId, platform). The new row gets a fresh id, and
  \<open>started_at\<close> is the creation instant \<open>now\<close>.\<close>

definition createPendingVerification :: "int \<Rightarrow> new_verification \<Rightarrow> store \<Rightarrow> store" where
  "createPendingVerification now v st =
     (let row = \<lparr>pv_id = fresh_id st,
                  discord_user_id = nv_discord_user_id v,
                  guild_id = nv_guild_id v,
                  platform = nv_platform v,
                  username = nv_username v,
                  problem_id = nv_problem_id v,
                  problem_url = nv_problem_url v,
                  problem_name = nv_problem_name v,
                  started_at = now,
                  expires_at = nv_expires_at v\<rparr>
      in st\<lparr>pending_verifications :=
               row # filter (\<lambda>p. session_key p \<noteq> session_key row) (pending_verifications st)\<rparr>)"

text \<open>Modelled from the spec: \<open>isAccountLinkedByOther\<close> of supabase.client.js is missing;
  it holds when the (platform, username) pair is linked to a different user in the guild.\<close>

definition isAccountLinkedByOther :: "string \<Rightarrow> string \<Rightarrow> string \<Rightarrow> string \<Rightarrow> store \<Rightarrow> bool" where
  "isAccountLinkedByOther guildId plat name userId st =
     list_ex (\<lambda>a. la_guild_id a = guildId \<and> la_platform a = plat \<and> la_username a = name \<and>
                   la_discord_user_id a \<noteq> userId) (linked_accounts st)"

text \<open>Modelled from the spec: \<open>cleanupExpiredVerifications\<close> of supabase.client.js is
  missing; the periodic sweep "deletes every one with \<open>expiresAt\<close> in the past".\<close>

definition cleanupExpiredVerifications :: "int \<Rightarrow> store \<Rightarrow> store" where
  "cleanupExpiredVerifications now st =
     st\<lparr>pending_verifications := filter (\<lambda>p. \<not> expires_at p < now) (pending_verifications st)\<rparr>"

section \<open>The verify command (src/commands/verify.js)\<close>

text \<open>
  \<open>parseCodeforcesProblemId\<close>: the match of \<open>/^(\d+)([A-Za-z]\d*)$/\<close>. Digits and letters
  are disjoint, so the first group is the longest run of digits at the start and the
  second group is the rest, which must be one letter followed by digits only.
\<close>

record cf_problem_ref =
  ref_contestId :: int
  ref_index :: string

definition parseCodeforcesProblemId :: "string \<Rightarrow> error + cf_problem_ref" where
  "parseCodeforcesProblemId problemId =
     (case dropWhile isDigit problemId of
        [] \<Rightarrow> Inl (Error (''Invalid problem ID format: '' @ problemId))
      | l # ts \<Rightarrow>
          if takeWhile isDigit problemId \<noteq> [] \<and> isLetter l \<and> list_all isDigit ts
          then Inr \<lparr>ref_contestId = int (parseDigits (takeWhile isDigit problemId)),
                    ref_index = toUpperCase (l # ts)\<rparr>
          else Inl (Error (''Invalid problem ID format: '' @ problemId)))"

text \<open>The value of \<open>assignVerificationRoles\<close> (src/utils/roleManager.js, whose source is
  missing), of which verify.js reads \<open>verifiedRole\<close> and \<open>rankRole\<close>.\<close>

record role_results =
  verifiedRole :: bool
  rankRole :: bool

text \<open>An entry of \<open>results\<close>; the optional properties are \<open>None\<close> where the source leaves
  them out.\<close>

record verify_result =
  res_platform :: string
  res_username :: string
  success :: bool
  res_message :: string
  res_rank :: "string option"
  rolesAssigned :: "role_results option"
  problemUrl :: "string option"
  res_problemName :: "string option"
  timeRemaining :: "string option"

text \<open>
  What the outside world delivers while one pending verification is processed: the two
  readings of the clock, the outcomes of the requests to the judges, the failure of
  \<open>createLinkedAccount\<close> if any, and the outcome of \<open>assignVerificationRoles\<close> (a thrown
  error or the returned flags).
\<close>

record verify_env =
  clock_isExpired :: int
  cf_recent :: "error + cf_submission list"
  cf_rank :: "error + string"
  cc_page :: "error + http_response"
  cc_recent :: "cc_submission list"
  save_failure :: "error option"
  roles_outcome :: "error + role_results"
  clock_getRemainingTime :: int

text \<open>
  The first \<open>try\<close> block of the loop body: \<open>verificationResult\<close> (of which only \<open>verified\<close>
  and \<open>message\<close> are read later; \<open>None\<close> when the platform is neither judge and the
  variable stays undefined) and \<open>userRank\<close>. A failing \<open>getUserRank\<close> is swallowed.
\<close>

definition attemptVerification ::
  "verify_env \<Rightarrow> pending_verification \<Rightarrow> error + ((bool \<times> string) option \<times> string option)" where
  "attemptVerification env pending =
     (if platform pending = ''codeforces'' then
        (case parseCodeforcesProblemId (problem_id pending) of
           Inl e \<Rightarrow> Inl e
         | Inr ref \<Rightarrow>
             (case cf_checkCompilationErrorSubmission (cf_recent env) (ref_contestId ref)
                     (ref_index ref) (started_at pending) of
                Inl e \<Rightarrow> Inl e
              | Inr r \<Rightarrow>
                  Inr (Some (verified r, message r),
                       if verified r
                       then (case cf_rank env of Inl e \<Rightarrow> None | Inr rk \<Rightarrow> Some rk)
                       else None)))
      else if platform pending = ''codechef'' then
        (case cc_checkCompilationErrorSubmission (cc_page env) (cc_recent env) (username pending)
                (problem_id pending) (started_at pending) of
           Inl e \<Rightarrow> Inl e
         | Inr r \<Rightarrow> Inr (Some (verified r, message r), None))
      else Inr (None, None))"

definition failure_result :: "pending_verification \<Rightarrow> string \<Rightarrow> verify_result" where
  "failure_result pending msg =
     \<lparr>res_platform = platform pending, res_username = username pending, success = False,
      res_message = msg, res_rank = None, rolesAssigned = None, problemUrl = None,
      res_problemName = None, timeRemaining = None\<rparr>"

text \<open>The test \<open>verificationResult && verificationResult.verified\<close> and the expression
  \<open>verificationResult?.message || "No valid Compilation Error submission found."\<close>.\<close>

definition isVerified :: "(bool \<times> string) option \<Rightarrow> bool" where
  "isVerified verificationResult =
     (case verificationResult of None \<Rightarrow> False | Some (v, m) \<Rightarrow> v)"

definition resultMessage :: "(bool \<times> string) option \<Rightarrow> string" where
  "resultMessage verificationResult =
     (case verificationResult of
        None \<Rightarrow> ''No valid Compilation Error submission found.''
      | Some (v, m) \<Rightarrow>
          if m = [] then ''No valid Compilation Error submission found.'' else m)"

definition EXPIRED_MESSAGE :: string where
  "EXPIRED_MESSAGE = ''Verification expired. Please start a new verification with `/link`.''"

definition NOT_SAVED_PREFIX :: string where
  "NOT_SAVED_PREFIX = ''Verification successful but failed to save: ''"

text \<open>The body of the loop over the pending verifications: the new store and the entry
  pushed to \<open>results\<close>. The second \<open>try\<close> block holds \<open>createLinkedAccount\<close>,
  \<open>deletePendingVerification\<close> and \<open>assignVerificationRoles\<close>, in this order, and its
  \<open>catch\<close> block reports whatever one of them throws.\<close>

definition verifyPending ::
  "string \<Rightarrow> string \<Rightarrow> verify_env \<Rightarrow> store \<Rightarrow> pending_verification \<Rightarrow> store \<times> verify_result" where
  "verifyPending userId guildId env st pending =
     (if isExpired (clock_isExpired env) (expires_at pending) then
        (deletePendingVerification (pv_id pending) st, failure_result pending EXPIRED_MESSAGE)
      else
        (case attemptVerification env pending of
           Inl e \<Rightarrow>
             (st, failure_result pending (''Failed to check submissions: '' @ error_message e))
         | Inr (verificationResult, userRank) \<Rightarrow>
             if isVerified verificationResult then
               (case createLinkedAccount (save_failure env)
                       \<lparr>la_discord_user_id = userId, la_guild_id = guildId,
                        la_platform = platform pending, la_username = username pending,
                        la_rank = userRank\<rparr> st of
                  Inl e \<Rightarrow>
                    (st, failure_result pending (NOT_SAVED_PREFIX @ error_message e))
                | Inr st1 \<Rightarrow>
                    (let st2 = deletePendingVerification (pv_id pending) st1 in
                     (case roles_outcome env of
                        Inl e \<Rightarrow>
                          (st2, failure_result pending (NOT_SAVED_PREFIX @ error_message e))
                      | Inr roleResults \<Rightarrow>
                          (st2, \<lparr>res_platform = platform pending, res_username = username pending,
                                 success = True, res_message = ''Account verified successfully!'',
                                 res_rank = userRank, rolesAssigned = Some roleResults,
                                 problemUrl = None, res_problemName = None,
                                 timeRemaining = None\<rparr>))))
             else
               (let remaining = getRemainingTime (clock_getRemainingTime env) (expires_at pending) in
                (st, \<lparr>res_platform = platform pending, res_username = username pending,
                      success = False, res_message = resultMessage verificationResult,
                      res_rank = None, rolesAssigned = None,
                      problemUrl = Some (problem_url pending),
                      res_problemName = Some (problem_name pending),
                      timeRemaining = Some (formatted remaining)\<rparr>))))"

text \<open>The loop, and \<open>execute\<close> up to the rendering of the results. \<open>envs\<close> gives, for each
  pending verification, what the world delivers while it is processed.\<close>

fun processPending ::
  "string \<Rightarrow> string \<Rightarrow> (pending_verification \<Rightarrow> verify_env) \<Rightarrow> store \<Rightarrow>
   pending_verification list \<Rightarrow> store \<times> verify_result list" where
  "processPending userId guildId envs st [] = (st, [])"
| "processPending userId guildId envs st (pending # rest) =
     (case verifyPending userId guildId (envs pending) st pending of
        (st1, r) \<Rightarrow>
          (case processPending userId guildId envs st1 rest of
             (st2, rs) \<Rightarrow> (st2, r # rs)))"

datatype verify_reply = NoPendingVerifications | VerificationResults "verify_result list"

text \<open>The pending verifications the command works on: those of the user in the guild,
  filtered by the platform option when one is given (an empty string is falsy).\<close>

definition selectPending ::
  "string \<Rightarrow> string \<Rightarrow> string option \<Rightarrow> store \<Rightarrow> pending_verification list" where
  "selectPending userId guildId platformFilter st =
     (case platformFilter of
        None \<Rightarrow> getPendingVerifications userId guildId st
      | Some f \<Rightarrow>
          if f = [] then getPendingVerifications userId guildId st
          else filter (\<lambda>v. platform v = f) (getPendingVerifications userId guildId st))"

definition execute ::
  "string \<Rightarrow> string \<Rightarrow> string option \<Rightarrow> (pending_verification \<Rightarrow> verify_env) \<Rightarrow> store \<Rightarrow>
   store \<times> verify_reply" where
  "execute userId guildId platformFilter envs st =
     (let pendingVerifications = selectPending userId guildId platformFilter st
      in if pendingVerifications = [] then (st, NoPendingVerifications)
         else (case processPending userId guildId envs st pendingVerifications of
                 (st', results) \<Rightarrow> (st', VerificationResults results)))"

section \<open>The link command (src/commands/link.js)\<close>

text \<open>
  What the outside world delivers to a link handler: the outcome of \<open>validateUser\<close>, the
  handle that \<open>getUserInfo\<close> returns (or its error, on which the handler falls back to the
  name typed), the outcome of the problem selection, the clock read by
  \<open>getExpirationTime\<close> and the instant at which the store creates the row.
\<close>

record link_env =
  user_exists :: "error + bool"
  user_handle :: "error + string"
  picked_problem :: "error + selected_problem"
  clock_getExpirationTime :: int
  clock_created :: int

datatype link_reply =
    UserNotFound
  | LinkedToOther
  | VerificationStarted selected_problem int
  | LinkFailed error

definition handleLinkCodeforces ::
  "link_env \<Rightarrow> string \<Rightarrow> string \<Rightarrow> string \<Rightarrow> store \<Rightarrow> store \<times> link_reply" where
  "handleLinkCodeforces env userId guildId name st =
     (case user_exists env of
        Inl e \<Rightarrow> (st, LinkFailed e)
      | Inr userExists \<Rightarrow>
          if \<not> userExists then (st, UserNotFound)
          else if isAccountLinkedByOther guildId ''codeforces'' name userId st then (st, LinkedToOther)
          else
            (case picked_problem env of
               Inl e \<Rightarrow> (st, LinkFailed e)
             | Inr problem \<Rightarrow>
                 (let expiresAt = getExpirationTime (clock_getExpirationTime env) VERIFICATION_TIMEOUT in
                  (createPendingVerification (clock_created env)
                     \<lparr>nv_discord_user_id = userId, nv_guild_id = guildId,
                      nv_platform = ''codeforces'',
                      nv_username = (case user_handle env of Inl e \<Rightarrow> name | Inr h \<Rightarrow> h),
                      nv_problem_id = sel_id problem, nv_problem_url = sel_url problem,
                      nv_problem_name = sel_name problem, nv_expires_at = expiresAt\<rparr> st,
                   VerificationStarted problem expiresAt))))"

definition handleLinkCodechef ::
  "link_env \<Rightarrow> string \<Rightarrow> string \<Rightarrow> string \<Rightarrow> store \<Rightarrow> store \<times> link_reply" where
  "handleLinkCodechef env userId guildId name st =
     (case user_exists env of
        Inl e \<Rightarrow> (st, LinkFailed e)
      | Inr userExists \<Rightarrow>
          if \<not> userExists then (st, UserNotFound)
          else if isAccountLinkedByOther guildId ''codechef'' name userId st then (st, LinkedToOther)
          else
            (case picked_problem env of
               Inl e \<Rightarrow> (st, LinkFailed e)
             | Inr problem \<Rightarrow>
                 (let expiresAt = getExpirationTime (clock_getExpirationTime env) VERIFICATION_TIMEOUT in
                  (createPendingVerification (clock_created env)
                     \<lparr>nv_discord_user_id = userId, nv_guild_id = guildId,
                      nv_platform = ''codechef'', nv_username = name,
                      nv_problem_id = sel_id problem, nv_problem_url = sel_url problem,
                      nv_problem_name = sel_name problem, nv_expires_at = expiresAt\<rparr> st,
                   VerificationStarted problem expiresAt))))"

text \<open>The stores that the commands and the periodic sweep can produce from the empty one.\<close>

inductive reachable :: "store \<Rightarrow> bool" where
  reachable_empty: "reachable empty_store"
| reachable_link_codeforces:
    "reachable st \<Longrightarrow> reachable (fst (handleLinkCodeforces env userId guildId name st))"
| reachable_link_codechef:
    "reachable st \<Longrightarrow> reachable (fst (handleLinkCodechef env userId guildId name st))"
| reachable_verify:
    "reachable st \<Longrightarrow> reachable (fst (execute userId guildId platformFilter envs st))"
| reachable_sweep:
    "reachable st \<Longrightarrow> reachable (cleanupExpiredVerifications now st)"

text \<open>The sessions of a store that are pending for a key.\<close>

definition sessions_for :: "string \<times> string \<times> string \<Rightarrow> store \<Rightarrow> pending_verification list" where
  "sessions_for k st = filter (\<lambda>p. session_key p = k) (pending_verifications st)"

section \<open>Requests of the CodeChef \<open>getRecentSubmissions\<close>\<close>

text \<open>
  \<open>getRecentSubmissions\<close> of the CodeChef service passes the gate once and then sends its
  first request; when the answer is not an array it sends a second request, to another
  endpoint, without passing the gate again. The model keeps the instants at which the
  requests are issued. \<open>primary\<close> is the outcome of the first request (an error, the
  mapped array, or \<open>None\<close> for a body that is not an array), \<open>primary_duration\<close> the time
  until that answer is handled, \<open>alternative\<close> the outcome of the second request (an
  error, the submissions parsed from the content, or \<open>None\<close> for a body without content).
  The result is the list returned, the instants of the requests in order, and the new
  \<open>lastRequestTime\<close>.
\<close>

record cc_recent_env =
  gate_clock :: int
  gate_latency :: nat
  primary :: "error + cc_submission list option"
  primary_duration :: nat
  alternative :: "error + cc_submission list option"

definition cc_getRecentSubmissions ::
  "int \<Rightarrow> cc_recent_env \<Rightarrow> cc_submission list \<times> int list \<times> int" where
  "cc_getRecentSubmissions lastRequest env =
     (let t1 = respectRateLimit CC_REQUEST_DELAY lastRequest (gate_clock env) (gate_latency env) in
      (case primary env of
         Inl e \<Rightarrow> ([], [t1], t1)
       | Inr (Some submissions) \<Rightarrow> (submissions, [t1], t1)
       | Inr None \<Rightarrow>
           (let t2 = t1 + int (primary_duration env) in
            (case alternative env of
               Inl e \<Rightarrow> ([], [t1, t2], t1)
             | Inr (Some submissions) \<Rightarrow> (submissions, [t1, t2], t1)
             | Inr None \<Rightarrow> ([], [t1, t2], t1)))))"

section \<open>Reachable states of the problem catalog\<close>


section \<open>Auxiliary notions for the statements\<close>

text \<open>The store after a finalisation: the linked account persisted (replacing an account
  with the same key) and the session deleted.\<close>

definition saved_store :: "string \<Rightarrow> string \<Rightarrow> string option \<Rightarrow> store \<Rightarrow> pending_verification \<Rightarrow> store" where
  "saved_store u g rk st p =
     deletePendingVerification (pv_id p)
       (st\<lparr>linked_accounts :=
             \<lparr>la_discord_user_id = u, la_guild_id = g, la_platform = platform p,
              la_username = username p, la_rank = rk\<rparr> #
             filter (\<lambda>b. account_key b \<noteq> (u, g, platform p)) (linked_accounts st)\<rparr>)"

text \<open>The remaining time, in seconds, that the object returned by \<open>getRemainingTime\<close> shows.\<close>

definition remaining_seconds :: "remaining_time \<Rightarrow> int" where
  "remaining_seconds r = minutes r * 60 + seconds r"


section \<open>Example data\<close>

text \<open>A session for problem 1000A started at the instant 1700000000000, and submissions
  made five seconds after and five seconds before that instant.\<close>

definition sub_ce_after :: cf_submission where
  "sub_ce_after = \<lparr>sub_id = 1, contestId = Some 1000, problemIndex = ''a'', problemName = ''Codehorses T-shirts'',
     verdict = Some ''COMPILATION_ERROR'', creationTimeSeconds = 1700000005, programmingLanguage = ''C++''\<rparr>"

definition sub_wa_after :: cf_submission where
  "sub_wa_after = \<lparr>sub_id = 2, contestId = Some 1000, problemIndex = ''A'', problemName = ''Codehorses T-shirts'',
     verdict = Some ''WRONG_ANSWER'', creationTimeSeconds = 1700000005, programmingLanguage = ''C++''\<rparr>"

definition sub_ce_before :: cf_submission where
  "sub_ce_before = \<lparr>sub_id = 3, contestId = Some 1000, problemIndex = ''A'', problemName = ''Codehorses T-shirts'',
     verdict = Some ''COMPILATION_ERROR'', creationTimeSeconds = 1699999995, programmingLanguage = ''C++''\<rparr>"

text \<open>A CodeChef compilation error on TEST, five seconds before that instant.\<close>

definition cc_ce_before :: cc_submission where
  "cc_ce_before = \<lparr>cc_id = Some 1, problemCode = Some ''TEST'', result = Some ''compilation error'',
     date = Some 1699999995000, language = Some ''C++''\<rparr>"

text \<open>The session, the store that holds it, and what the world delivers during a verify:
  a qualifying submission, a store that saves, and a role assignment that throws, returns
  flags, or is never reached because the clock is past the expiry, the save fails, or no
  submission qualifies.\<close>

definition session_1000A :: pending_verification where
  "session_1000A =
     \<lparr>pv_id = 7, discord_user_id = ''u1'', guild_id = ''g1'', platform = ''codeforces'',
      username = ''tourist'', problem_id = ''1000A'',
      problem_url = ''https://codeforces.com/problemset/problem/1000/A'',
      problem_name = ''Codehorses T-shirts'', started_at = 1700000000000,
      expires_at = 1700000600000\<rparr>"

definition store_1000A :: store where
  "store_1000A = \<lparr>pending_verifications = [session_1000A], linked_accounts = []\<rparr>"

definition env_roles_throw :: verify_env where
  "env_roles_throw =
     \<lparr>clock_isExpired = 1700000100000, cf_recent = Inr [sub_ce_after], cf_rank = Inr ''expert'',
      cc_page = Inl (Error ''not requested''), cc_recent = [], save_failure = None,
      roles_outcome = Inl (Error ''Missing Permissions''),
      clock_getRemainingTime = 1700000100500\<rparr>"

definition env_roles_flags :: verify_env where
  "env_roles_flags =
     env_roles_throw\<lparr>roles_outcome := Inr \<lparr>verifiedRole = False, rankRole = False\<rparr>\<rparr>"



definition env_wrong_answer :: verify_env where
  "env_wrong_answer = env_roles_flags\<lparr>cf_recent := Inr [sub_ce_before, sub_wa_after]\<rparr>"

text \<open>A problem whose index is a letter and a digit, and a session whose problem has an
  index of two letters.\<close>

definition problem_1800a1 :: cf_problem where
  "problem_1800a1 = \<lparr>p_contestId = 1800, p_index = ''a1'', p_name = ''Easy'', p_rating = Some 900\<rparr>"

definition session_1800AA :: pending_verification where
  "session_1800AA = session_1000A\<lparr>problem_id := ''1800AA''\<rparr>"

text \<open>Two link commands of the same user in the same guild, a minute apart, to which
  different problems are assigned.\<close>

definition problem_1000A :: cf_problem where
  "problem_1000A =
     \<lparr>p_contestId = 1000, p_index = ''A'', p_name = ''Codehorses T-shirts'', p_rating = Some 1200\<rparr>"

definition link_first :: link_env where
  "link_first =
     \<lparr>user_exists = Inr True, user_handle = Inr ''tourist'',
      picked_problem = Inr (selectCodeforcesProblem problem_1000A),
      clock_getExpirationTime = 1700000000000, clock_created = 1700000000000\<rparr>"

definition link_second :: link_env where
  "link_second =
     \<lparr>user_exists = Inr True, user_handle = Inr ''tourist'',
      picked_problem = Inr (selectCodeforcesProblem problem_1800a1),
      clock_getExpirationTime = 1700000060000, clock_created = 1700000060000\<rparr>"

definition store_after_first_link :: store where
  "store_after_first_link = fst (handleLinkCodeforces link_first ''u1'' ''g1'' ''tourist'' empty_store)"





text \<open>A call of the CodeChef \<open>getRecentSubmissions\<close> whose first request is answered, 40 ms
  after it was issued, with a body that is not an array.\<close>

definition recent_not_an_array :: cc_recent_env where
  "recent_not_an_array =
     \<lparr>gate_clock = 1700000000000, gate_latency = 0, primary = Inr None,
      primary_duration = 40, alternative = Inr (Some [])\<rparr>"

section \<open>Properties of the Codeforces matcher\<close>

lemma find_SomeD: "find P xs = Some x \<Longrightarrow> x \<in> set xs \<and> P x"
  by (induction xs) (auto split: if_splits)

lemma find_None_set: "find P xs = None \<longleftrightarrow> (\<forall>x\<in>set xs. \<not> P x)"
  by (induction xs) auto

text \<open>
  C2. Outcome precedence of the Codeforces matcher. The result is verified exactly when
  some fetched submission has the contest id, a case-insensitively equal problem index,
  the verdict \<open>COMPILATION_ERROR\<close> and a timestamp at or after the start (compared in whole
  seconds, the unit of the timestamps); it then carries such a submission. Otherwise, if
  some submission is on the problem and at or after the start, the result is a mismatch
  whose message quotes the verdict of such a submission, which is not
  \<open>COMPILATION_ERROR\<close>. Otherwise the result is "No submission found to the specified problem".
\<close>

theorem codeforces_outcome_precedence:
  "let onProblem = (\<lambda>s. contestId s = Some cid \<and> toUpperCase (problemIndex s) = toUpperCase idx);
       afterStart = (\<lambda>s. startedAt div 1000 \<le> creationTimeSeconds s);
       isCE = (\<lambda>s. verdict s = Some ''COMPILATION_ERROR'');
       outcome = cf_checkCompilationErrorSubmission (Inr subs) cid idx startedAt
   in ((\<exists>r. outcome = Inr r \<and> verified r) \<longleftrightarrow> (\<exists>s\<in>set subs. onProblem s \<and> isCE s \<and> afterStart s))
    \<and> ((\<exists>s\<in>set subs. onProblem s \<and> isCE s \<and> afterStart s) \<longrightarrow>
         (\<exists>s\<in>set subs. onProblem s \<and> isCE s \<and> afterStart s \<and>
            outcome = Inr \<lparr>verified = True, submission = Some s,
                            message = ''Compilation Error submission found!''\<rparr>))
    \<and> (\<not> (\<exists>s\<in>set subs. onProblem s \<and> isCE s \<and> afterStart s) \<and>
        (\<exists>s\<in>set subs. onProblem s \<and> afterStart s) \<longrightarrow>
         (\<exists>s\<in>set subs. onProblem s \<and> afterStart s \<and> \<not> isCE s \<and>
            outcome = Inr \<lparr>verified = False, submission = Some s,
                            message = ''Found submission but verdict was '' @ dquote @
                                      template_string (verdict s) @ dquote @
                                      '' instead of '' @ dquote @ ''COMPILATION_ERROR'' @ dquote\<rparr>))
    \<and> (\<not> (\<exists>s\<in>set subs. onProblem s \<and> afterStart s) \<longrightarrow>
         outcome = Inr \<lparr>verified = False, submission = None,
                         message = ''No submission found to the specified problem''\<rparr>)"
proof -
  let ?Q = "\<lambda>sub. cf_isProblemMatch cid idx sub \<and> cf_isCompilationError sub \<and>
                   isSubmissionAfterStart (creationTimeSeconds sub) startedAt"
  let ?P = "\<lambda>sub. cf_isProblemMatch cid idx sub \<and>
                   isSubmissionAfterStart (creationTimeSeconds sub) startedAt"
  show ?thesis
  proof (cases "find ?Q subs")
    case (Some m)
    then have "m \<in> set subs" "?Q m" using find_SomeD [of ?Q subs m] by auto
    with Some show ?thesis
      unfolding Let_def cf_checkCompilationErrorSubmission_def
      by (auto simp: cf_isProblemMatch_def cf_isCompilationError_def isSubmissionAfterStart_def)
  next
    case None
    note noQ = None
    then have nq: "\<forall>x\<in>set subs. \<not> ?Q x" by (simp add: find_None_set)
    show ?thesis
    proof (cases "find ?P subs")
      case (Some a)
      then have "a \<in> set subs" "?P a" using find_SomeD [of ?P subs a] by auto
      with Some noQ nq show ?thesis
        unfolding Let_def cf_checkCompilationErrorSubmission_def
        by (auto simp: cf_isProblemMatch_def cf_isCompilationError_def isSubmissionAfterStart_def)
    next
      case None
      then have "\<forall>x\<in>set subs. \<not> ?P x" by (simp add: find_None_set)
      with None noQ show ?thesis
        unfolding Let_def cf_checkCompilationErrorSubmission_def
        by (auto simp: cf_isProblemMatch_def cf_isCompilationError_def isSubmissionAfterStart_def)
    qed
  qed
qed

theorem codeforces_outcome_precedence_witness:
  "(\<exists>r. cf_checkCompilationErrorSubmission (Inr [sub_ce_before, sub_ce_after]) 1000 ''A'' 1700000000000 = Inr r
        \<and> verified r) \<and>
   cf_checkCompilationErrorSubmission (Inr [sub_ce_before, sub_wa_after]) 1000 ''A'' 1700000000000 =
     Inr \<lparr>verified = False, submission = Some sub_wa_after,
          message = ''Found submission but verdict was '' @ dquote @ ''WRONG_ANSWER'' @ dquote @
                    '' instead of '' @ dquote @ ''COMPILATION_ERROR'' @ dquote\<rparr> \<and>
   cf_checkCompilationErrorSubmission (Inr [sub_ce_before]) 1000 ''A'' 1700000000000 =
     Inr \<lparr>verified = False, submission = None,
          message = ''No submission found to the specified problem''\<rparr>"
proof -
  have up: "toUpperCase ''a'' = ''A''" "toUpperCase ''A'' = ''A''"
    by (simp_all add: toUpperCase_def toUpperChar_def lowerLetters_def upperLetters_def)
  have a: "\<exists>r. cf_checkCompilationErrorSubmission (Inr [sub_ce_before, sub_ce_after]) 1000 ''A'' 1700000000000 = Inr r
        \<and> verified r"
    using codeforces_outcome_precedence [where subs = "[sub_ce_before, sub_ce_after]" and cid = 1000 and idx = "''A''" and startedAt = 1700000000000]
    by (simp add: Let_def sub_ce_before_def sub_ce_after_def up)
  have b: "cf_checkCompilationErrorSubmission (Inr [sub_ce_before, sub_wa_after]) 1000 ''A'' 1700000000000 =
     Inr \<lparr>verified = False, submission = Some sub_wa_after,
          message = ''Found submission but verdict was '' @ dquote @ ''WRONG_ANSWER'' @ dquote @
                    '' instead of '' @ dquote @ ''COMPILATION_ERROR'' @ dquote\<rparr>"
    using codeforces_outcome_precedence [where subs = "[sub_ce_before, sub_wa_after]" and cid = 1000 and idx = "''A''" and startedAt = 1700000000000]
    by (simp add: Let_def sub_ce_before_def sub_wa_after_def up template_string_def)
  have c: "cf_checkCompilationErrorSubmission (Inr [sub_ce_before]) 1000 ''A'' 1700000000000 =
     Inr \<lparr>verified = False, submission = None,
          message = ''No submission found to the specified problem''\<rparr>"
    using codeforces_outcome_precedence [where subs = "[sub_ce_before]" and cid = 1000 and idx = "''A''" and startedAt = 1700000000000]
    by (simp add: Let_def sub_ce_before_def up)
  from a b c show ?thesis by blast
qed

text \<open>On Codeforces a verified result always carries a submission that is at or after
  the start, so a submission from before the start is never what verifies a session.\<close>

lemma codeforces_ignores_earlier_submissions:
  assumes "cf_checkCompilationErrorSubmission (Inr subs) cid idx startedAt = Inr r" and "verified r"
  shows "\<exists>s\<in>set subs. submission r = Some s \<and> startedAt div 1000 \<le> creationTimeSeconds s"
  using assms unfolding cf_checkCompilationErrorSubmission_def isSubmissionAfterStart_def
  by (auto split: option.splits dest!: find_SomeD)

section \<open>The CodeChef matcher and the start of the session\<close>

text \<open>The CodeChef matcher returns the same result whatever the start of the session.\<close>

lemma codechef_ignores_start:
  "cc_checkCompilationErrorSubmission pg subs u c startedAt =
   cc_checkCompilationErrorSubmission pg subs u c startedAt'"
  by (simp add: cc_checkCompilationErrorSubmission_def)

text \<open>
  C1. Replay protection asks that a submission from before \<open>startedAt\<close> never verifies a
  session. The Codeforces matcher keeps to it (lemma above). The CodeChef matcher does
  not: for a session started at 1700000000000 it returns a verified result on a
  compilation error dated five seconds earlier, found among the recent submissions, and
  also on a status page that merely mentions the user and a compilation error.
\<close>

theorem codechef_accepts_earlier_submission:
  "date cc_ce_before = Some 1699999995000 \<and> (1699999995000 :: int) < 1700000000000 \<and>
   cc_checkCompilationErrorSubmission (Inr \<lparr>status = 200, data = ''''\<rparr>) [cc_ce_before]
       ''chef_user'' ''TEST'' 1700000000000 =
     Inr \<lparr>verified = True, submission = Some cc_ce_before,
          message = ''Compilation Error submission found!''\<rparr> \<and>
   cc_checkCompilationErrorSubmission
       (Inr \<lparr>status = 200, data = ''<td>chef_user</td><span>compilation error</span>''\<rparr>) []
       ''chef_user'' ''TEST'' 1700000000000 =
     Inr \<lparr>verified = True,
          submission = Some \<lparr>cc_id = None, problemCode = Some ''TEST'',
                             result = Some ''compilation error'', date = None, language = None\<rparr>,
          message = ''Compilation Error submission found!''\<rparr>"
  by code_simp

section \<open>The problem id of a Codeforces session\<close>

lemma digit_cases: "d < 10 \<Longrightarrow> d = 0 \<or> d = 1 \<or> d = 2 \<or> d = 3 \<or> d = 4 \<or> d = 5 \<or> d = 6 \<or> d = 7 \<or> d = 8 \<or> d = (9::nat)"
  by arith

lemma isDigit_digitChar: "d < 10 \<Longrightarrow> isDigit (digitChar d)"
  using digit_cases [of d] by (auto simp: isDigit_def digitChar_def digits_def)

lemma digitVal_digitChar: "d < 10 \<Longrightarrow> digitVal (digitChar d) = d"
  using digit_cases [of d] by (auto simp: digitVal_def digitChar_def digits_def)

lemma showNat_digits: "list_all isDigit (showNat n)"
proof (induction n rule: showNat.induct)
  case (1 n)
  show ?case
  proof (cases "n < 10")
    case True
    then show ?thesis by (subst showNat.simps) (simp add: isDigit_digitChar)
  next
    case False
    then have "list_all isDigit (showNat (n div 10))" using 1 by simp
    with False show ?thesis by (subst showNat.simps) (simp add: isDigit_digitChar)
  qed
qed

lemma showNat_not_Nil: "showNat n \<noteq> []"
  by (subst showNat.simps) simp

lemma parseDigits_snoc: "parseDigits (ds @ [c]) = parseDigits ds * 10 + digitVal c"
  by (simp add: parseDigits_def)

lemma parseDigits_showNat: "parseDigits (showNat n) = n"
proof (induction n rule: showNat.induct)
  case (1 n)
  show ?case
  proof (cases "n < 10")
    case True
    then show ?thesis by (subst showNat.simps) (simp add: parseDigits_def digitVal_digitChar)
  next
    case False
    then have "parseDigits (showNat (n div 10)) = n div 10" using 1 by simp
    with False show ?thesis
      by (subst showNat.simps) (simp add: parseDigits_snoc digitVal_digitChar)
  qed
qed

lemma letter_not_digit: "isLetter c \<Longrightarrow> \<not> isDigit c"
  by (auto simp: isLetter_def isDigit_def lowerLetters_def upperLetters_def digits_def)

lemma takeWhile_digits:
  "list_all isDigit ds \<Longrightarrow> \<not> isDigit l \<Longrightarrow> takeWhile isDigit (ds @ l # ts) = ds"
  by (induction ds) auto

lemma dropWhile_digits:
  "list_all isDigit ds \<Longrightarrow> \<not> isDigit l \<Longrightarrow> dropWhile isDigit (ds @ l # ts) = l # ts"
  by (induction ds) auto

lemma parse_shape:
  assumes "ds \<noteq> []" "list_all isDigit ds" "isLetter l" "list_all isDigit ts"
  shows "parseCodeforcesProblemId (ds @ l # ts) =
           Inr \<lparr>ref_contestId = int (parseDigits ds), ref_index = toUpperCase (l # ts)\<rparr>"
  using assms
  by (simp add: parseCodeforcesProblemId_def takeWhile_digits dropWhile_digits letter_not_digit)

lemma parse_no_shape:
  assumes "\<not> (\<exists>ds l ts. problemId = ds @ l # ts \<and> ds \<noteq> [] \<and> list_all isDigit ds \<and>
                isLetter l \<and> list_all isDigit ts)"
  shows "parseCodeforcesProblemId problemId = Inl (Error (''Invalid problem ID format: '' @ problemId))"
proof (cases "dropWhile isDigit problemId")
  case Nil
  show ?thesis unfolding parseCodeforcesProblemId_def Nil by simp
next
  case (Cons l ts)
  have split: "problemId = takeWhile isDigit problemId @ l # ts"
    using Cons takeWhile_dropWhile_id [of isDigit problemId] by simp
  have digs: "list_all isDigit (takeWhile isDigit problemId)"
    by (simp add: list_all_iff) (meson set_takeWhileD)
  have "\<not> (takeWhile isDigit problemId \<noteq> [] \<and> isLetter l \<and> list_all isDigit ts)"
    using assms split digs by blast
  then show ?thesis unfolding parseCodeforcesProblemId_def Cons by simp
qed

lemma sel_id_positive:
  "0 < p_contestId problem \<Longrightarrow>
   sel_id (selectCodeforcesProblem problem) = showNat (nat (p_contestId problem)) @ p_index problem"
  by (simp add: selectCodeforcesProblem_def showInt_def)

section \<open>The branches of the verify loop\<close>

lemma verifyPending_expired:
  "isExpired (clock_isExpired env) (expires_at p) \<Longrightarrow>
   verifyPending u g env st p =
     (deletePendingVerification (pv_id p) st, failure_result p EXPIRED_MESSAGE)"
  by (simp add: verifyPending_def)

lemma verifyPending_check_failed:
  "\<not> isExpired (clock_isExpired env) (expires_at p) \<Longrightarrow> attemptVerification env p = Inl e \<Longrightarrow>
   verifyPending u g env st p =
     (st, failure_result p (''Failed to check submissions: '' @ error_message e))"
  by (simp add: verifyPending_def)

lemma verifyPending_not_verified:
  "\<not> isExpired (clock_isExpired env) (expires_at p) \<Longrightarrow>
   attemptVerification env p = Inr (vr, rk) \<Longrightarrow> \<not> isVerified vr \<Longrightarrow>
   verifyPending u g env st p =
     (st, \<lparr>res_platform = platform p, res_username = username p,
           success = False, res_message = resultMessage vr,
           res_rank = None, rolesAssigned = None,
           problemUrl = Some (problem_url p),
           res_problemName = Some (problem_name p),
           timeRemaining = Some (formatted (getRemainingTime (clock_getRemainingTime env) (expires_at p)))\<rparr>)"
  by (simp add: verifyPending_def Let_def)

lemma verifyPending_save_failed:
  "\<not> isExpired (clock_isExpired env) (expires_at p) \<Longrightarrow>
   attemptVerification env p = Inr (vr, rk) \<Longrightarrow> isVerified vr \<Longrightarrow> save_failure env = Some e \<Longrightarrow>
   verifyPending u g env st p = (st, failure_result p (NOT_SAVED_PREFIX @ error_message e))"
  by (simp add: verifyPending_def createLinkedAccount_def)

lemma verifyPending_roles_failed:
  "\<not> isExpired (clock_isExpired env) (expires_at p) \<Longrightarrow>
   attemptVerification env p = Inr (vr, rk) \<Longrightarrow> isVerified vr \<Longrightarrow> save_failure env = None \<Longrightarrow>
   roles_outcome env = Inl e \<Longrightarrow>
   verifyPending u g env st p =
     (saved_store u g rk st p, failure_result p (NOT_SAVED_PREFIX @ error_message e))"
  by (simp add: verifyPending_def createLinkedAccount_def saved_store_def account_key_def)

lemma verifyPending_success:
  "\<not> isExpired (clock_isExpired env) (expires_at p) \<Longrightarrow>
   attemptVerification env p = Inr (vr, rk) \<Longrightarrow> isVerified vr \<Longrightarrow> save_failure env = None \<Longrightarrow>
   roles_outcome env = Inr roleResults \<Longrightarrow>
   verifyPending u g env st p =
     (saved_store u g rk st p,
      \<lparr>res_platform = platform p, res_username = username p,
       success = True, res_message = ''Account verified successfully!'',
       res_rank = rk, rolesAssigned = Some roleResults,
       problemUrl = None, res_problemName = None, timeRemaining = None\<rparr>)"
  by (simp add: verifyPending_def createLinkedAccount_def saved_store_def account_key_def)

lemma verifyPending_pending:
  "pending_verifications (fst (verifyPending u g env st p)) = pending_verifications st \<or>
   pending_verifications (fst (verifyPending u g env st p)) =
     filter (\<lambda>q. pv_id q \<noteq> pv_id p) (pending_verifications st)"
proof (cases "isExpired (clock_isExpired env) (expires_at p)")
  case True
  then show ?thesis by (simp add: verifyPending_expired deletePendingVerification_def)
next
  case False
  show ?thesis
  proof (cases "attemptVerification env p")
    case (Inl e)
    with False show ?thesis by (simp add: verifyPending_check_failed)
  next
    case (Inr res)
    obtain vr rk where res: "res = (vr, rk)" by (cases res)
    show ?thesis
    proof (cases "isVerified vr")
      case nv: False
      with False Inr res show ?thesis by (simp add: verifyPending_not_verified)
    next
      case v: True
      show ?thesis
      proof (cases "save_failure env")
        case (Some e)
        with False Inr res v show ?thesis by (simp add: verifyPending_save_failed)
      next
        case None
        show ?thesis
        proof (cases "roles_outcome env")
          case (Inl e)
          with False Inr res v None show ?thesis
            by (simp add: verifyPending_roles_failed saved_store_def deletePendingVerification_def)
        next
          case r: (Inr rr)
          with False Inr res v None show ?thesis
            by (simp add: verifyPending_success saved_store_def deletePendingVerification_def)
        qed
      qed
    qed
  qed
qed

section \<open>Remaining time\<close>

lemma getRemainingTime_seconds:
  "remaining_seconds (getRemainingTime now expiresAt) =
     (if expiresAt - now \<le> 0 then 0 else (expiresAt - now) div 1000)"
proof -
  have "(d div 60000) * 60 + (d mod 60000) div 1000 = d div 1000" for d :: int
  proof -
    have "d = (d div 60000) * 60 * 1000 + d mod 60000" by simp
    then have "d div 1000 = ((d mod 60000) + (d div 60000) * 60 * 1000) div 1000"
      by (simp add: add.commute)
    also have "\<dots> = (d div 60000) * 60 + (d mod 60000) div 1000"
      by (rule div_mult_self1) simp
    finally show ?thesis by simp
  qed
  then show ?thesis
    by (simp add: remaining_seconds_def getRemainingTime_def Let_def)
qed

lemma getRemainingTime_mono:
  "t \<le> t' \<Longrightarrow>
   remaining_seconds (getRemainingTime t' expiresAt) \<le> remaining_seconds (getRemainingTime t expiresAt)"
  by (auto simp: getRemainingTime_seconds intro!: zdiv_mono1 pos_imp_zdiv_nonneg_iff [THEN iffD2])

text \<open>What \<open>getRemainingTime\<close> returns, and the ranges of its minutes and seconds.\<close>

lemma getRemainingTime_value:
  "getRemainingTime now expiresAt =
     (if expiresAt - now \<le> 0 then \<lparr>minutes = 0, seconds = 0, formatted = ''Expired''\<rparr>
      else \<lparr>minutes = (expiresAt - now) div 60000,
             seconds = ((expiresAt - now) mod 60000) div 1000,
             formatted = showInt ((expiresAt - now) div 60000) @ ''m '' @
                         showInt (((expiresAt - now) mod 60000) div 1000) @ ''s''\<rparr>)"
  by (simp add: getRemainingTime_def Let_def)

lemma getRemainingTime_ranges:
  "0 \<le> minutes (getRemainingTime now expiresAt) \<and>
   0 \<le> seconds (getRemainingTime now expiresAt) \<and>
   seconds (getRemainingTime now expiresAt) < 60"
proof (cases "expiresAt - now \<le> 0")
  case True
  then show ?thesis by (simp add: getRemainingTime_value)
next
  case False
  have small: "0 \<le> x div 1000 \<and> x div 1000 < 60" if "0 \<le> x" "x < 60000" for x :: int
  proof -
    have "x \<le> 59999" using that by simp
    then have "x div 1000 \<le> 59999 div 1000" by (intro zdiv_mono1) simp_all
    then have "x div 1000 < 60" by simp
    moreover have "0 \<le> x div 1000" using that by (simp add: pos_imp_zdiv_nonneg_iff)
    ultimately show ?thesis by simp
  qed
  have "0 \<le> (expiresAt - now) mod 60000" "(expiresAt - now) mod 60000 < 60000" by simp_all
  then have "0 \<le> ((expiresAt - now) mod 60000) div 1000 \<and> ((expiresAt - now) mod 60000) div 1000 < 60"
    by (rule small)
  moreover have "0 \<le> (expiresAt - now) div 60000"
    using False by (simp add: pos_imp_zdiv_nonneg_iff)
  ultimately show ?thesis using False by (simp add: getRemainingTime_value)
qed

section \<open>The loop of the verify command\<close>


lemma fst_processPending_Cons:
  "fst (processPending u g envs st (p # ps)) =
   fst (processPending u g envs (fst (verifyPending u g (envs p) st p)) ps)"
  by (simp split: prod.splits)






section \<open>Outcomes of a verify\<close>



text \<open>The messages of the matchers and of the other unsuccessful outcomes never begin
  with "Verification successful but failed to save: ".\<close>

lemma cf_message_head:
  "cf_checkCompilationErrorSubmission f cid idx t = Inr r \<Longrightarrow>
   \<not> startsWith (message r) NOT_SAVED_PREFIX \<and> message r \<noteq> []"
  unfolding cf_checkCompilationErrorSubmission_def NOT_SAVED_PREFIX_def
  by (auto split: sum.splits option.splits)

lemma cc_message_head:
  "cc_checkCompilationErrorSubmission pg subs u c t = Inr r \<Longrightarrow>
   \<not> startsWith (message r) NOT_SAVED_PREFIX \<and> message r \<noteq> []"
  unfolding cc_checkCompilationErrorSubmission_def NOT_SAVED_PREFIX_def
  by (auto split: sum.splits option.splits if_splits)

lemma attempt_message_Some:
  assumes "attemptVerification env p = Inr (Some (v, m), rk)"
  shows "\<not> startsWith m NOT_SAVED_PREFIX \<and> m \<noteq> []"
  using assms unfolding attemptVerification_def
  by (auto split: if_splits sum.splits dest!: cf_message_head cc_message_head)

lemma attempt_message:
  assumes "attemptVerification env p = Inr (vr, rk)"
  shows "\<not> startsWith (resultMessage vr) NOT_SAVED_PREFIX \<and>
         (\<forall>v m. vr = Some (v, m) \<longrightarrow> resultMessage vr = m)"
proof (cases vr)
  case None
  then show ?thesis by (simp add: resultMessage_def NOT_SAVED_PREFIX_def)
next
  case (Some a)
  obtain v m where a: "a = (v, m)" by (cases a)
  from assms Some a have "\<not> startsWith m NOT_SAVED_PREFIX \<and> m \<noteq> []"
    using attempt_message_Some by simp
  with Some a show ?thesis by (simp add: resultMessage_def)
qed




text \<open>
  C6. When the judge check of an unexpired session returns without a match (not-yet or
  mismatch), the store is returned unchanged, the entry is unsuccessful and its message is
  the reason given by the matcher. Its remaining time is computed from the clock read
  then: with \<open>d\<close> the milliseconds from that clock to \<open>expires_at\<close>, it is "Expired" when
  \<open>d \<le> 0\<close> and otherwise \<open>d div 60000\<close> minutes and \<open>(d mod 60000) div 1000\<close> seconds, written
  as "\<open>m\<close>m \<open>s\<close>s"; the seconds are below 60 and minutes and seconds together are \<open>d div 1000\<close>
  seconds (0 when \<open>d \<le> 0\<close>). This total never grows as the clock advances. A further call
  that again finds no match works on the same, unchanged session and shows the remaining
  time for its own, later clock, so repeated calls show non-increasing remaining time.
\<close>

theorem unverified_attempt_leaves_session:
  "\<not> isExpired (clock_isExpired env) (expires_at p) \<Longrightarrow>
   attemptVerification env p = Inr (vr, rk) \<Longrightarrow> \<not> isVerified vr \<Longrightarrow>
     fst (verifyPending userId guildId env st p) = st \<and>
     success (snd (verifyPending userId guildId env st p)) = False \<and>
     res_message (snd (verifyPending userId guildId env st p)) = resultMessage vr \<and>
     (\<forall>v m. vr = Some (v, m) \<longrightarrow> res_message (snd (verifyPending userId guildId env st p)) = m) \<and>
     timeRemaining (snd (verifyPending userId guildId env st p)) =
       Some (formatted (getRemainingTime (clock_getRemainingTime env) (expires_at p))) \<and>
     timeRemaining (snd (verifyPending userId guildId env st p)) =
       Some (if expires_at p - clock_getRemainingTime env \<le> 0 then ''Expired''
             else showInt ((expires_at p - clock_getRemainingTime env) div 60000) @ ''m '' @
                  showInt (((expires_at p - clock_getRemainingTime env) mod 60000) div 1000) @
                  ''s'') \<and>
     (\<forall>t. getRemainingTime t (expires_at p) =
            (if expires_at p - t \<le> 0
             then \<lparr>minutes = 0, seconds = 0, formatted = ''Expired''\<rparr>
             else \<lparr>minutes = (expires_at p - t) div 60000,
                    seconds = ((expires_at p - t) mod 60000) div 1000,
                    formatted = showInt ((expires_at p - t) div 60000) @ ''m '' @
                                showInt (((expires_at p - t) mod 60000) div 1000) @ ''s''\<rparr>)) \<and>
     (\<forall>t. remaining_seconds (getRemainingTime t (expires_at p)) =
            (if expires_at p - t \<le> 0 then 0 else (expires_at p - t) div 1000) \<and>
          0 \<le> minutes (getRemainingTime t (expires_at p)) \<and>
          0 \<le> seconds (getRemainingTime t (expires_at p)) \<and>
          seconds (getRemainingTime t (expires_at p)) < 60) \<and>
     (\<forall>t t'. t \<le> t' \<longrightarrow>
        remaining_seconds (getRemainingTime t' (expires_at p)) \<le>
        remaining_seconds (getRemainingTime t (expires_at p))) \<and>
     (\<forall>env' vr' rk'.
        \<not> isExpired (clock_isExpired env') (expires_at p) \<and>
        attemptVerification env' p = Inr (vr', rk') \<and> \<not> isVerified vr' \<longrightarrow>
        fst (verifyPending userId guildId env' (fst (verifyPending userId guildId env st p)) p) = st \<and>
        timeRemaining (snd (verifyPending userId guildId env'
                              (fst (verifyPending userId guildId env st p)) p)) =
          Some (if expires_at p - clock_getRemainingTime env' \<le> 0 then ''Expired''
                else showInt ((expires_at p - clock_getRemainingTime env') div 60000) @ ''m '' @
                     showInt (((expires_at p - clock_getRemainingTime env') mod 60000) div 1000) @
                     ''s''))"
proof -
  assume a: "\<not> isExpired (clock_isExpired env) (expires_at p)"
    and b: "attemptVerification env p = Inr (vr, rk)" and c: "\<not> isVerified vr"
  let ?r = "verifyPending userId guildId env st p"
  have m: "\<forall>v m. vr = Some (v, m) \<longrightarrow> resultMessage vr = m"
    using attempt_message [OF b] by blast
  have c1: "fst ?r = st" and c2: "success (snd ?r) = False"
    and c3: "res_message (snd ?r) = resultMessage vr"
    and c5: "timeRemaining (snd ?r) =
       Some (formatted (getRemainingTime (clock_getRemainingTime env) (expires_at p)))"
    unfolding verifyPending_not_verified [OF a b c] by simp_all
  have c4: "\<forall>v m. vr = Some (v, m) \<longrightarrow> res_message (snd ?r) = m"
    using m c3 by simp
  have fmt: "formatted (getRemainingTime t e) =
       (if e - t \<le> 0 then ''Expired''
        else showInt ((e - t) div 60000) @ ''m '' @ showInt (((e - t) mod 60000) div 1000) @ ''s'')"
    for t e by (simp add: getRemainingTime_value)
  have c6: "timeRemaining (snd ?r) =
       Some (if expires_at p - clock_getRemainingTime env \<le> 0 then ''Expired''
             else showInt ((expires_at p - clock_getRemainingTime env) div 60000) @ ''m '' @
                  showInt (((expires_at p - clock_getRemainingTime env) mod 60000) div 1000) @
                  ''s'')"
    unfolding c5 fmt ..
  have c7: "\<forall>t. getRemainingTime t (expires_at p) =
            (if expires_at p - t \<le> 0
             then \<lparr>minutes = 0, seconds = 0, formatted = ''Expired''\<rparr>
             else \<lparr>minutes = (expires_at p - t) div 60000,
                    seconds = ((expires_at p - t) mod 60000) div 1000,
                    formatted = showInt ((expires_at p - t) div 60000) @ ''m '' @
                                showInt (((expires_at p - t) mod 60000) div 1000) @ ''s''\<rparr>)"
    by (intro allI) (rule getRemainingTime_value)
  have c8: "\<forall>t. remaining_seconds (getRemainingTime t (expires_at p)) =
            (if expires_at p - t \<le> 0 then 0 else (expires_at p - t) div 1000) \<and>
          0 \<le> minutes (getRemainingTime t (expires_at p)) \<and>
          0 \<le> seconds (getRemainingTime t (expires_at p)) \<and>
          seconds (getRemainingTime t (expires_at p)) < 60"
    using getRemainingTime_seconds getRemainingTime_ranges by blast
  have c9: "\<forall>t t'. t \<le> t' \<longrightarrow>
        remaining_seconds (getRemainingTime t' (expires_at p)) \<le>
        remaining_seconds (getRemainingTime t (expires_at p))"
    using getRemainingTime_mono by blast
  have c10: "\<forall>env' vr' rk'.
        \<not> isExpired (clock_isExpired env') (expires_at p) \<and>
        attemptVerification env' p = Inr (vr', rk') \<and> \<not> isVerified vr' \<longrightarrow>
        fst (verifyPending userId guildId env' (fst ?r) p) = st \<and>
        timeRemaining (snd (verifyPending userId guildId env' (fst ?r) p)) =
          Some (if expires_at p - clock_getRemainingTime env' \<le> 0 then ''Expired''
                else showInt ((expires_at p - clock_getRemainingTime env') div 60000) @ ''m '' @
                     showInt (((expires_at p - clock_getRemainingTime env') mod 60000) div 1000) @
                     ''s'')"
  proof (intro allI impI)
    fix env' :: verify_env and vr' rk'
    assume h: "\<not> isExpired (clock_isExpired env') (expires_at p) \<and>
        attemptVerification env' p = Inr (vr', rk') \<and> \<not> isVerified vr'"
    then have e: "verifyPending userId guildId env' st p =
       (st, \<lparr>res_platform = platform p, res_username = username p,
           success = False, res_message = resultMessage vr',
           res_rank = None, rolesAssigned = None,
           problemUrl = Some (problem_url p),
           res_problemName = Some (problem_name p),
           timeRemaining = Some (formatted (getRemainingTime (clock_getRemainingTime env') (expires_at p)))\<rparr>)"
      by (intro verifyPending_not_verified) simp_all
    show "fst (verifyPending userId guildId env' (fst ?r) p) = st \<and>
        timeRemaining (snd (verifyPending userId guildId env' (fst ?r) p)) =
          Some (if expires_at p - clock_getRemainingTime env' \<le> 0 then ''Expired''
                else showInt ((expires_at p - clock_getRemainingTime env') div 60000) @ ''m '' @
                     showInt (((expires_at p - clock_getRemainingTime env') mod 60000) div 1000) @
                     ''s'')"
      unfolding c1 e fmt by simp
  qed
  show ?thesis by (intro conjI c1 c2 c3 c4 c5 c6 c7 c8 c9 c10)
qed

theorem unverified_attempt_leaves_session_witness:
  "\<not> isExpired (clock_isExpired env_wrong_answer) (expires_at session_1000A) \<and>
   fst (verifyPending ''u1'' ''g1'' env_wrong_answer store_1000A session_1000A) = store_1000A \<and>
   res_message (snd (verifyPending ''u1'' ''g1'' env_wrong_answer store_1000A session_1000A)) =
     ''Found submission but verdict was '' @ dquote @ ''WRONG_ANSWER'' @ dquote @
     '' instead of '' @ dquote @ ''COMPILATION_ERROR'' @ dquote \<and>
   timeRemaining (snd (verifyPending ''u1'' ''g1'' env_wrong_answer store_1000A session_1000A)) =
     Some ''8m 19s'' \<and>
   getRemainingTime 1700000100500 (expires_at session_1000A) =
     \<lparr>minutes = 8, seconds = 19, formatted = ''8m 19s''\<rparr> \<and>
   getRemainingTime 1700000160500 (expires_at session_1000A) =
     \<lparr>minutes = 7, seconds = 19, formatted = ''7m 19s''\<rparr> \<and>
   getRemainingTime 1700000600000 (expires_at session_1000A) =
     \<lparr>minutes = 0, seconds = 0, formatted = ''Expired''\<rparr> \<and>
   remaining_seconds (getRemainingTime 1700000100500 (expires_at session_1000A)) = 499 \<and>
   remaining_seconds (getRemainingTime 1700000160500 (expires_at session_1000A)) = 439 \<and>
   remaining_seconds (getRemainingTime 1700000160500 (expires_at session_1000A)) \<le>
   remaining_seconds (getRemainingTime 1700000100500 (expires_at session_1000A))"
proof -
  let ?m = "''Found submission but verdict was '' @ dquote @ ''WRONG_ANSWER'' @ dquote @
     '' instead of '' @ dquote @ ''COMPILATION_ERROR'' @ dquote"
  have a: "\<not> isExpired (clock_isExpired env_wrong_answer) (expires_at session_1000A)"
    by code_simp
  have b: "attemptVerification env_wrong_answer session_1000A = Inr (Some (False, ?m), None)"
    by code_simp
  have c: "\<not> isVerified (Some (False, ?m))"
    by (simp add: isVerified_def)
  have e: "expires_at session_1000A = 1700000600000"
    by (simp add: session_1000A_def)
  have k: "clock_getRemainingTime env_wrong_answer = 1700000100500"
    by (simp add: env_wrong_answer_def env_roles_flags_def env_roles_throw_def)
  have s: "showInt 8 = ''8''" "showInt 7 = ''7''" "showInt 19 = ''19''"
    by code_simp+
  note t = unverified_attempt_leaves_session [OF a b c, of "''u1''" "''g1''" store_1000A]
  have t1: "fst (verifyPending ''u1'' ''g1'' env_wrong_answer store_1000A session_1000A) = store_1000A"
    using t by blast
  have t2: "res_message (snd (verifyPending ''u1'' ''g1'' env_wrong_answer store_1000A session_1000A)) = ?m"
    using t by (simp add: resultMessage_def dquote_def)
  have t3: "timeRemaining (snd (verifyPending ''u1'' ''g1'' env_wrong_answer store_1000A session_1000A)) =
       Some (if expires_at session_1000A - clock_getRemainingTime env_wrong_answer \<le> 0 then ''Expired''
             else showInt ((expires_at session_1000A - clock_getRemainingTime env_wrong_answer) div 60000) @ ''m '' @
                  showInt (((expires_at session_1000A - clock_getRemainingTime env_wrong_answer) mod 60000) div 1000) @
                  ''s'')"
    using t by blast
  have t3': "timeRemaining (snd (verifyPending ''u1'' ''g1'' env_wrong_answer store_1000A session_1000A)) =
       Some ''8m 19s''"
    using t3 by (simp add: e k s)
  have v: "getRemainingTime x (expires_at session_1000A) =
            (if expires_at session_1000A - x \<le> 0
             then \<lparr>minutes = 0, seconds = 0, formatted = ''Expired''\<rparr>
             else \<lparr>minutes = (expires_at session_1000A - x) div 60000,
                    seconds = ((expires_at session_1000A - x) mod 60000) div 1000,
                    formatted = showInt ((expires_at session_1000A - x) div 60000) @ ''m '' @
                                showInt (((expires_at session_1000A - x) mod 60000) div 1000) @ ''s''\<rparr>)"
    for x using t by blast
  have r: "remaining_seconds (getRemainingTime x (expires_at session_1000A)) =
            (if expires_at session_1000A - x \<le> 0 then 0 else (expires_at session_1000A - x) div 1000)"
    for x using t by blast
  have v1: "getRemainingTime 1700000100500 (expires_at session_1000A) =
     \<lparr>minutes = 8, seconds = 19, formatted = ''8m 19s''\<rparr>"
    using v [of 1700000100500] by (simp add: e s)
  have v2: "getRemainingTime 1700000160500 (expires_at session_1000A) =
     \<lparr>minutes = 7, seconds = 19, formatted = ''7m 19s''\<rparr>"
    using v [of 1700000160500] by (simp add: e s)
  have v3: "getRemainingTime 1700000600000 (expires_at session_1000A) =
     \<lparr>minutes = 0, seconds = 0, formatted = ''Expired''\<rparr>"
    using v [of 1700000600000] by (simp add: e)
  have r1: "remaining_seconds (getRemainingTime 1700000100500 (expires_at session_1000A)) = 499"
    using r [of 1700000100500] by (simp add: e)
  have r2: "remaining_seconds (getRemainingTime 1700000160500 (expires_at session_1000A)) = 439"
    using r [of 1700000160500] by (simp add: e)
  have r3: "remaining_seconds (getRemainingTime 1700000160500 (expires_at session_1000A)) \<le>
            remaining_seconds (getRemainingTime 1700000100500 (expires_at session_1000A))"
    unfolding r1 r2 by simp
  show ?thesis by (intro conjI a t1 t2 t3' v1 v2 v3 r1 r2 r3)
qed

text \<open>After a match and a successful save, the linked account is in the store and the
  session is gone whatever the role assignment does; the entry is a success when the role
  assignment returns its flags and a failure when it throws.\<close>

lemma finalisation_is_not_rolled_back:
  assumes "\<not> isExpired (clock_isExpired env) (expires_at p)"
    and "attemptVerification env p = Inr (vr, rk)" and "isVerified vr"
    and "save_failure env = None"
  shows "fst (verifyPending userId guildId env st p) = saved_store userId guildId rk st p"
    and "\<lparr>la_discord_user_id = userId, la_guild_id = guildId, la_platform = platform p,
          la_username = username p, la_rank = rk\<rparr>
         \<in> set (linked_accounts (fst (verifyPending userId guildId env st p)))"
    and "p \<notin> set (pending_verifications (fst (verifyPending userId guildId env st p)))"
    and "roles_outcome env = Inr roleResults \<Longrightarrow>
         success (snd (verifyPending userId guildId env st p)) \<and>
         rolesAssigned (snd (verifyPending userId guildId env st p)) = Some roleResults"
    and "roles_outcome env = Inl e \<Longrightarrow>
         \<not> success (snd (verifyPending userId guildId env st p)) \<and>
         res_message (snd (verifyPending userId guildId env st p)) =
           ''Verification successful but failed to save: '' @ error_message e"
proof -
  show s: "fst (verifyPending userId guildId env st p) = saved_store userId guildId rk st p"
    using assms
    by (cases "roles_outcome env") (simp_all add: verifyPending_roles_failed verifyPending_success)
  show "\<lparr>la_discord_user_id = userId, la_guild_id = guildId, la_platform = platform p,
          la_username = username p, la_rank = rk\<rparr>
         \<in> set (linked_accounts (fst (verifyPending userId guildId env st p)))"
    unfolding s by (simp add: saved_store_def deletePendingVerification_def)
  show "p \<notin> set (pending_verifications (fst (verifyPending userId guildId env st p)))"
    unfolding s by (simp add: saved_store_def deletePendingVerification_def)
  show "roles_outcome env = Inr roleResults \<Longrightarrow>
         success (snd (verifyPending userId guildId env st p)) \<and>
         rolesAssigned (snd (verifyPending userId guildId env st p)) = Some roleResults"
    using assms by (simp add: verifyPending_success)
  show "roles_outcome env = Inl e \<Longrightarrow>
         \<not> success (snd (verifyPending userId guildId env st p)) \<and>
         res_message (snd (verifyPending userId guildId env st p)) =
           ''Verification successful but failed to save: '' @ error_message e"
    using assms by (simp add: verifyPending_roles_failed failure_result_def NOT_SAVED_PREFIX_def)
qed

text \<open>
  C4. A failing role assignment must leave the persisted link in place and must not turn
  the verification into a failure. The link does stay (lemma above). But when
  \<open>assignVerificationRoles\<close> throws, the \<open>catch\<close> block written for the save reports the
  entry as unsuccessful, with the message "Verification successful but failed to save",
  although the account was saved and the session deleted. With the same inputs and a role
  assignment that returns flags saying that no role was assigned, the entry is a success.
\<close>

theorem role_failure_is_reported_as_failure:
  "verifyPending ''u1'' ''g1'' env_roles_throw store_1000A session_1000A =
     (\<lparr>pending_verifications = [],
       linked_accounts = [\<lparr>la_discord_user_id = ''u1'', la_guild_id = ''g1'',
                           la_platform = ''codeforces'', la_username = ''tourist'',
                           la_rank = Some ''expert''\<rparr>]\<rparr>,
      \<lparr>res_platform = ''codeforces'', res_username = ''tourist'', success = False,
       res_message = ''Verification successful but failed to save: Missing Permissions'',
       res_rank = None, rolesAssigned = None, problemUrl = None, res_problemName = None,
       timeRemaining = None\<rparr>) \<and>
   verifyPending ''u1'' ''g1'' env_roles_flags store_1000A session_1000A =
     (\<lparr>pending_verifications = [],
       linked_accounts = [\<lparr>la_discord_user_id = ''u1'', la_guild_id = ''g1'',
                           la_platform = ''codeforces'', la_username = ''tourist'',
                           la_rank = Some ''expert''\<rparr>]\<rparr>,
      \<lparr>res_platform = ''codeforces'', res_username = ''tourist'', success = True,
       res_message = ''Account verified successfully!'',
       res_rank = Some ''expert'',
       rolesAssigned = Some \<lparr>verifiedRole = False, rankRole = False\<rparr>,
       problemUrl = None, res_problemName = None, timeRemaining = None\<rparr>)"
  by code_simp

text \<open>
  C10. The id stored at session creation is the contest id followed by the index. For a
  positive contest id and an index made of one letter followed by digits,
  \<open>parseCodeforcesProblemId\<close> returns that contest id and the upper-cased index. An id that
  is not digits, one letter, digits (the shape the regular expression accepts) makes it
  throw "Invalid problem ID format", and every verify of an unexpired Codeforces session
  with such an id reports that failure and leaves the store as it was.
\<close>

theorem problem_id_round_trip:
  "(0 < p_contestId problem \<and> p_index problem = l # ts \<and> isLetter l \<and> list_all isDigit ts \<longrightarrow>
      parseCodeforcesProblemId (sel_id (selectCodeforcesProblem problem)) =
        Inr \<lparr>ref_contestId = p_contestId problem, ref_index = toUpperCase (p_index problem)\<rparr>) \<and>
   (\<not> (\<exists>ds l ts. problemId = ds @ l # ts \<and> ds \<noteq> [] \<and> list_all isDigit ds \<and>
                  isLetter l \<and> list_all isDigit ts) \<longrightarrow>
      parseCodeforcesProblemId problemId =
        Inl (Error (''Invalid problem ID format: '' @ problemId)) \<and>
      (\<forall>userId guildId env st p.
          platform p = ''codeforces'' \<and> problem_id p = problemId \<and>
          \<not> isExpired (clock_isExpired env) (expires_at p) \<longrightarrow>
          verifyPending userId guildId env st p =
            (st, failure_result p
                   (''Failed to check submissions: Invalid problem ID format: '' @ problemId))))"
proof (intro conjI impI)
  assume a: "0 < p_contestId problem \<and> p_index problem = l # ts \<and> isLetter l \<and> list_all isDigit ts"
  then have "sel_id (selectCodeforcesProblem problem) = showNat (nat (p_contestId problem)) @ l # ts"
    by (simp add: sel_id_positive)
  moreover have "parseCodeforcesProblemId (showNat (nat (p_contestId problem)) @ l # ts) =
      Inr \<lparr>ref_contestId = int (parseDigits (showNat (nat (p_contestId problem)))),
           ref_index = toUpperCase (l # ts)\<rparr>"
    using a by (intro parse_shape) (simp_all add: showNat_not_Nil showNat_digits)
  ultimately show "parseCodeforcesProblemId (sel_id (selectCodeforcesProblem problem)) =
        Inr \<lparr>ref_contestId = p_contestId problem, ref_index = toUpperCase (p_index problem)\<rparr>"
    using a by (simp add: parseDigits_showNat)
next
  assume n: "\<not> (\<exists>ds l ts. problemId = ds @ l # ts \<and> ds \<noteq> [] \<and> list_all isDigit ds \<and>
                  isLetter l \<and> list_all isDigit ts)"
  show e: "parseCodeforcesProblemId problemId =
        Inl (Error (''Invalid problem ID format: '' @ problemId))"
    by (rule parse_no_shape [OF n])
  show "\<forall>userId guildId env st p.
          platform p = ''codeforces'' \<and> problem_id p = problemId \<and>
          \<not> isExpired (clock_isExpired env) (expires_at p) \<longrightarrow>
          verifyPending userId guildId env st p =
            (st, failure_result p
                   (''Failed to check submissions: Invalid problem ID format: '' @ problemId))"
  proof (intro allI impI)
    fix userId guildId :: string and env :: verify_env and st :: store
      and p :: pending_verification
    assume h: "platform p = ''codeforces'' \<and> problem_id p = problemId \<and>
          \<not> isExpired (clock_isExpired env) (expires_at p)"
    then have "attemptVerification env p = Inl (Error (''Invalid problem ID format: '' @ problemId))"
      using e by (simp add: attemptVerification_def)
    with h show "verifyPending userId guildId env st p =
            (st, failure_result p
                   (''Failed to check submissions: Invalid problem ID format: '' @ problemId))"
      by (simp add: verifyPending_check_failed)
  qed
qed

theorem problem_id_round_trip_witness:
  "parseCodeforcesProblemId (sel_id (selectCodeforcesProblem problem_1800a1)) =
     Inr \<lparr>ref_contestId = 1800, ref_index = ''A1''\<rparr> \<and>
   parseCodeforcesProblemId ''1800AA'' = Inl (Error ''Invalid problem ID format: 1800AA'') \<and>
   verifyPending ''u1'' ''g1'' env_roles_flags store_1000A session_1800AA =
     (store_1000A,
      failure_result session_1800AA
        ''Failed to check submissions: Invalid problem ID format: 1800AA'')"
proof -
  have up: "toUpperCase ''a1'' = ''A1''"
    by (simp add: toUpperCase_def toUpperChar_def lowerLetters_def upperLetters_def)
  have h1: "0 < p_contestId problem_1800a1 \<and> p_index problem_1800a1 = CHR ''a'' # ''1'' \<and>
            isLetter (CHR ''a'') \<and> list_all isDigit ''1''"
    by (simp add: problem_1800a1_def isLetter_def isDigit_def lowerLetters_def digits_def)
  have ev: "parseCodeforcesProblemId ''1800AA'' = Inl (Error ''Invalid problem ID format: 1800AA'')"
    by code_simp
  have h2: "\<not> (\<exists>ds l ts. ''1800AA'' = ds @ l # ts \<and> ds \<noteq> [] \<and> list_all isDigit ds \<and>
                  isLetter l \<and> list_all isDigit ts)"
  proof
    assume "\<exists>ds l ts. ''1800AA'' = ds @ l # ts \<and> ds \<noteq> [] \<and> list_all isDigit ds \<and>
                  isLetter l \<and> list_all isDigit ts"
    then obtain ds l ts where "''1800AA'' = ds @ l # ts" "ds \<noteq> []" "list_all isDigit ds"
      "isLetter l" "list_all isDigit ts" by blast
    then have "\<exists>r. parseCodeforcesProblemId ''1800AA'' = Inr r"
      using parse_shape [of ds l ts] by simp
    with ev show False by simp
  qed
  have h3: "platform session_1800AA = ''codeforces'' \<and> problem_id session_1800AA = ''1800AA'' \<and>
          \<not> isExpired (clock_isExpired env_roles_flags) (expires_at session_1800AA)"
    by (simp add: session_1800AA_def session_1000A_def env_roles_flags_def env_roles_throw_def
        isExpired_def)
  from problem_id_round_trip [where problem = problem_1800a1 and l = "CHR ''a''" and ts = "''1''"
      and problemId = "''1800AA''"] h1 h2 h3
  show ?thesis by (simp add: up problem_1800a1_def)
qed

section \<open>One pending session per user, guild and platform\<close>

text \<open>Every operation on the store keeps the keys of the pending sessions distinct.\<close>

lemma distinct_deletePendingVerification:
  "distinct (map session_key (pending_verifications st)) \<Longrightarrow>
   distinct (map session_key (pending_verifications (deletePendingVerification i st)))"
  by (simp add: deletePendingVerification_def distinct_map_filter)

lemma distinct_createPendingVerification:
  "distinct (map session_key (pending_verifications st)) \<Longrightarrow>
   distinct (map session_key (pending_verifications (createPendingVerification now v st)))"
  by (auto simp: createPendingVerification_def Let_def distinct_map_filter)

lemma distinct_verifyPending:
  "distinct (map session_key (pending_verifications st)) \<Longrightarrow>
   distinct (map session_key (pending_verifications (fst (verifyPending u g env st p))))"
proof -
  assume d: "distinct (map session_key (pending_verifications st))"
  from verifyPending_pending [of u g env st p]
  consider (same) "pending_verifications (fst (verifyPending u g env st p)) = pending_verifications st"
    | (deleted) "pending_verifications (fst (verifyPending u g env st p)) =
                   filter (\<lambda>q. pv_id q \<noteq> pv_id p) (pending_verifications st)"
    by blast
  then show ?thesis
  proof cases
    case same
    with d show ?thesis by simp
  next
    case deleted
    with d show ?thesis by (simp add: distinct_map_filter)
  qed
qed

lemma distinct_processPending:
  "distinct (map session_key (pending_verifications st)) \<Longrightarrow>
   distinct (map session_key (pending_verifications (fst (processPending u g envs st ps))))"
proof (induction ps arbitrary: st)
  case Nil
  then show ?case by simp
next
  case (Cons p ps)
  have "distinct (map session_key (pending_verifications (fst (verifyPending u g (envs p) st p))))"
    by (rule distinct_verifyPending [OF Cons.prems])
  from Cons.IH [OF this] show ?case
    by (simp only: fst_processPending_Cons)
qed

lemma distinct_execute:
  assumes "distinct (map session_key (pending_verifications st))"
  shows "distinct (map session_key (pending_verifications (fst (execute u g f envs st))))"
proof (cases "selectPending u g f st = []")
  case True
  with assms show ?thesis by (simp add: execute_def)
next
  case False
  obtain st' rs where p: "processPending u g envs st (selectPending u g f st) = (st', rs)"
    by (cases "processPending u g envs st (selectPending u g f st)")
  from distinct_processPending [OF assms, of u g envs "selectPending u g f st"] p
  have "distinct (map session_key (pending_verifications st'))" by simp
  with False p show ?thesis by (simp add: execute_def)
qed

lemma distinct_handleLinkCodeforces:
  "distinct (map session_key (pending_verifications st)) \<Longrightarrow>
   distinct (map session_key (pending_verifications (fst (handleLinkCodeforces env u g n st))))"
  by (simp add: handleLinkCodeforces_def Let_def distinct_createPendingVerification
      split: sum.splits)

lemma distinct_handleLinkCodechef:
  "distinct (map session_key (pending_verifications st)) \<Longrightarrow>
   distinct (map session_key (pending_verifications (fst (handleLinkCodechef env u g n st))))"
  by (simp add: handleLinkCodechef_def Let_def distinct_createPendingVerification
      split: sum.splits)

lemma distinct_cleanup:
  "distinct (map session_key (pending_verifications st)) \<Longrightarrow>
   distinct (map session_key (pending_verifications (cleanupExpiredVerifications now st)))"
  by (simp add: cleanupExpiredVerifications_def distinct_map_filter)

lemma reachable_distinct:
  "reachable st \<Longrightarrow> distinct (map session_key (pending_verifications st))"
proof (induction rule: reachable.induct)
  case reachable_empty
  show ?case by (simp add: empty_store_def)
next
  case (reachable_link_codeforces st env userId guildId name)
  then show ?case by (simp add: distinct_handleLinkCodeforces)
next
  case (reachable_link_codechef st env userId guildId name)
  then show ?case by (simp add: distinct_handleLinkCodechef)
next
  case (reachable_verify st userId guildId platformFilter envs)
  then show ?case by (simp add: distinct_execute)
next
  case (reachable_sweep st now)
  then show ?case by (simp add: distinct_cleanup)
qed

lemma distinct_key_length:
  "distinct (map f xs) \<Longrightarrow> length (filter (\<lambda>x. f x = k) xs) \<le> 1"
  by (induction xs) (auto simp: filter_empty_conv image_iff)

lemma sessions_for_create:
  "k = (nv_discord_user_id v, nv_guild_id v, nv_platform v) \<Longrightarrow>
   sessions_for k (createPendingVerification now v st) =
     [\<lparr>pv_id = fresh_id st, discord_user_id = nv_discord_user_id v, guild_id = nv_guild_id v,
       platform = nv_platform v, username = nv_username v, problem_id = nv_problem_id v,
       problem_url = nv_problem_url v, problem_name = nv_problem_name v, started_at = now,
       expires_at = nv_expires_at v\<rparr>]"
  by (simp add: sessions_for_def createPendingVerification_def Let_def session_key_def filter_empty_conv)

lemma sessions_for_link_codeforces:
  assumes "snd (handleLinkCodeforces env userId guildId name st) = VerificationStarted problem expiresAt"
  shows "\<exists>row. sessions_for (userId, guildId, ''codeforces'')
                  (fst (handleLinkCodeforces env userId guildId name st)) = [row] \<and>
               problem_id row = sel_id problem \<and> expires_at row = expiresAt \<and>
               started_at row = clock_created env"
proof (cases "user_exists env")
  case (Inl e)
  with assms show ?thesis by (simp add: handleLinkCodeforces_def)
next
  case (Inr ex)
  show ?thesis
  proof (cases "picked_problem env")
    case (Inl e)
    with Inr assms show ?thesis by (simp add: handleLinkCodeforces_def split: if_splits)
  next
    case pr: (Inr pb)
    with Inr assms show ?thesis
      by (simp add: handleLinkCodeforces_def Let_def sessions_for_create split: if_splits)
  qed
qed

lemma sessions_for_link_codechef:
  assumes "snd (handleLinkCodechef env userId guildId name st) = VerificationStarted problem expiresAt"
  shows "\<exists>row. sessions_for (userId, guildId, ''codechef'')
                  (fst (handleLinkCodechef env userId guildId name st)) = [row] \<and>
               problem_id row = sel_id problem \<and> expires_at row = expiresAt \<and>
               started_at row = clock_created env"
proof (cases "user_exists env")
  case (Inl e)
  with assms show ?thesis by (simp add: handleLinkCodechef_def)
next
  case (Inr ex)
  show ?thesis
  proof (cases "picked_problem env")
    case (Inl e)
    with Inr assms show ?thesis by (simp add: handleLinkCodechef_def split: if_splits)
  next
    case pr: (Inr pb)
    with Inr assms show ?thesis
      by (simp add: handleLinkCodechef_def Let_def sessions_for_create split: if_splits)
  qed
qed

text \<open>
  C7. In every store that the link and verify commands and the sweep can produce there
  is at most one pending session for each (userId, guildId, platform). When a link
  command starts a session in such a store, the sessions pending for its key afterwards
  are exactly the new one, with the newly assigned problem, the new expiry and the new
  creation instant: a session that was pending for the key before is superseded.
\<close>

theorem one_pending_session_per_key:
  "reachable st \<Longrightarrow>
     (\<forall>k. length (sessions_for k st) \<le> 1) \<and>
     (\<forall>env userId guildId name problem expiresAt.
         snd (handleLinkCodeforces env userId guildId name st) = VerificationStarted problem expiresAt \<longrightarrow>
         (\<exists>row. sessions_for (userId, guildId, ''codeforces'')
                   (fst (handleLinkCodeforces env userId guildId name st)) = [row] \<and>
                problem_id row = sel_id problem \<and> expires_at row = expiresAt \<and>
                started_at row = clock_created env)) \<and>
     (\<forall>env userId guildId name problem expiresAt.
         snd (handleLinkCodechef env userId guildId name st) = VerificationStarted problem expiresAt \<longrightarrow>
         (\<exists>row. sessions_for (userId, guildId, ''codechef'')
                   (fst (handleLinkCodechef env userId guildId name st)) = [row] \<and>
                problem_id row = sel_id problem \<and> expires_at row = expiresAt \<and>
                started_at row = clock_created env))"
proof -
  assume r: "reachable st"
  have "length (sessions_for k st) \<le> 1" for k
    unfolding sessions_for_def by (rule distinct_key_length [OF reachable_distinct [OF r]])
  then show ?thesis
    using sessions_for_link_codeforces sessions_for_link_codechef by blast
qed

theorem one_pending_session_per_key_witness:
  "reachable store_after_first_link \<and>
   map problem_id (sessions_for (''u1'', ''g1'', ''codeforces'') store_after_first_link) = [''1000A''] \<and>
   map problem_id (sessions_for (''u1'', ''g1'', ''codeforces'')
       (fst (handleLinkCodeforces link_second ''u1'' ''g1'' ''tourist'' store_after_first_link))) =
     [''1800a1'']"
proof -
  have r: "reachable store_after_first_link"
    unfolding store_after_first_link_def by (intro reachable.intros)
  have a: "map problem_id (sessions_for (''u1'', ''g1'', ''codeforces'') store_after_first_link) = [''1000A'']"
    by code_simp
  have b: "snd (handleLinkCodeforces link_second ''u1'' ''g1'' ''tourist'' store_after_first_link) =
             VerificationStarted (selectCodeforcesProblem problem_1800a1) 1700000660000"
    by code_simp
  have c: "sel_id (selectCodeforcesProblem problem_1800a1) = ''1800a1''"
    by code_simp
  from one_pending_session_per_key [OF r] b
  obtain row where "sessions_for (''u1'', ''g1'', ''codeforces'')
       (fst (handleLinkCodeforces link_second ''u1'' ''g1'' ''tourist'' store_after_first_link)) = [row]"
    and "problem_id row = sel_id (selectCodeforcesProblem problem_1800a1)"
    by blast
  with r a c show ?thesis by simp
qed

section \<open>The problem catalog\<close>















section \<open>The rate-limit gate\<close>

text \<open>The gate itself: a caller that sleeps asks for exactly the time that is missing to
  the minimum spacing, and a call that runs without another caller in between records an
  instant at least the spacing after the one recorded before. Two such calls, one after
  the other, are therefore at least the spacing apart (250 ms on Codeforces, 500 ms on
  CodeChef).\<close>

lemma requestedTimeout_due:
  "requestedTimeout delay previous now = Some timeout \<Longrightarrow> now + timeout = previous + delay"
  by (auto simp: requestedTimeout_def Let_def split: if_splits)

lemma respectRateLimit_spacing:
  "previous + delay \<le> respectRateLimit delay previous now latency"
  by (auto simp: respectRateLimit_def requestedTimeout_def Let_def)

lemma respectRateLimit_twice:
  "respectRateLimit delay (respectRateLimit delay previous now latency) now' latency' -
   respectRateLimit delay previous now latency \<ge> delay"
  using respectRateLimit_spacing [of "respectRateLimit delay previous now latency" delay now' latency']
  by simp

text \<open>The second request of the CodeChef \<open>getRecentSubmissions\<close> is issued as soon as
  the first is answered.\<close>

lemma cc_getRecentSubmissions_second_request:
  "primary env = Inr None \<Longrightarrow>
   fst (snd (cc_getRecentSubmissions previous env)) =
     [respectRateLimit CC_REQUEST_DELAY previous (gate_clock env) (gate_latency env),
      respectRateLimit CC_REQUEST_DELAY previous (gate_clock env) (gate_latency env) +
        int (primary_duration env)]"
  by (simp add: cc_getRecentSubmissions_def Let_def split: sum.splits option.splits)

text \<open>
  C9. Every two requests through one adapter must be at least the minimum spacing apart
  (500 ms on CodeChef). The CodeChef \<open>getRecentSubmissions\<close> breaks this: after a first
  answer that is not an array it sends its second request without passing the gate, here
  40 ms after the first.
\<close>

theorem codechef_second_request_skips_gate:
  "cc_getRecentSubmissions 0 recent_not_an_array =
     ([], [1700000000000, 1700000000040], 1700000000000) \<and>
   (1700000000040 :: int) - 1700000000000 < CC_REQUEST_DELAY"
  by code_simp

text \<open>Callers that overlap are not kept apart either: a caller that enters while another
  one sleeps reads the same \<open>lastRequestTime\<close>, so both wake and issue their requests at
  the same instant. Here the first request is issued at 1000; the callers entering at 1010
  and 1020 both issue theirs at 1250.\<close>

lemma overlapping_callers_share_an_instant:
  "gate_run CF_REQUEST_DELAY \<lparr>lastRequestTime = 0, sleeping = [], issued = []\<rparr>
     [Call 1 1000 1000, Call 2 1010 1010, Call 3 1020 1020, Wake 2 1250, Wake 3 1250] =
   Some \<lparr>lastRequestTime = 1250, sleeping = [], issued = [(3, 1250), (2, 1250), (1, 1000)]\<rparr>"
  by code_simp

end
